theory Spec2Isabelle
  imports Main "HOL-Library.AList" "HOL-Library.Sublist"
begin

section \<open>Phone normalizer\<close>

text \<open>
  Go strings are byte sequences, modelled as \<open>string\<close> (a list of 8-bit characters).
  The regular expression \<^verbatim>\<open>\D\<close> matches every code point other than the ASCII
  digits; a byte that is not valid UTF-8 is read as U+FFFD, and no byte of a multi-byte
  sequence is an ASCII digit. Replacing every match by the empty string therefore keeps
  exactly the bytes \<open>0\<close> .. \<open>9\<close>, in order.
\<close>

definition isDigit :: "char \<Rightarrow> bool" where
  "isDigit c = (c \<in> set ''0123456789'')"

definition stripNonDigits :: "string \<Rightarrow> string" where
  "stripNonDigits phone = filter isDigit phone"

definition normalizePhone :: "string \<Rightarrow> string" where
  "normalizePhone phone =
     (if phone = '''' then ''''
      else let digits = stripNonDigits phone in
        if length digits < 10 then ''''
        else if length digits = 10 then ''+1'' @ digits
        else if length digits = 11 \<and> digits ! 0 = CHR ''1'' then ''+'' @ digits
        else ''+'' @ digits)"

section \<open>Data model\<close>

text \<open>The decoded submission and the handler's JSON answer.\<close>

record ContactRequest =
  Name :: string
  Company :: string
  Email :: string
  Phone :: string
  Message :: string
  Service :: string

record Response =
  Success :: bool
  ResponseMessage :: string

text \<open>
  A value of Go's \<^verbatim>\<open>map[string]interface{}\<close> as the program builds it: strings and
  nested maps only. A map is an association list with distinct keys; \<open>m[k] = v\<close> is
  \<open>AList.update k v m\<close>.
\<close>

datatype jvalue = JString string | JObject "(string \<times> jvalue) list"

type_synonym jmap = "(string \<times> jvalue) list"

record GraphQLRequest =
  Query :: string
  Variables :: jmap

text \<open>\<open>Errors\<close> holds the \<open>message\<close> of each entry of the \<open>errors\<close> array.\<close>

record GraphQLResponse =
  Data :: string
  Errors :: "string list"

record LeadResult =
  PersonID :: string
  CompanyID :: string
  OpportunityID :: string
  IsNewPerson :: bool

text \<open>
  Go \<open>error\<close> values. Every \<^verbatim>\<open>fmt.Errorf\<close> of the program is a constructor, a
  wrapped error (\<^verbatim>\<open>%w\<close>) its argument; \<open>External\<close> is an error made by a library
  (net/http, net/url, encoding/json, the mail provider's client).
\<close>

datatype error =
    External string
  | TwentyConfigMissing
  | FindCreatePersonFailed error
  | CreateOpportunityFailed error
  | ParseCompanyResponse error
  | ParsePersonResponse error
  | ParseOpportunityResponse error
  | CreateRequestFailed error
  | ExecuteRequestFailed error
  | ReadResponseFailed error
  | UnexpectedStatus int string
  | ParseResponseFailed error
  | GraphqlError string
  | MailgunConfigMissing

section \<open>External collaborators\<close>

text \<open>
  The POST request handed to \<^verbatim>\<open>client.Do\<close>. Its body is the JSON encoding of a
  \<open>GraphQLRequest\<close>, kept here as the value itself: \<^verbatim>\<open>json.Marshal\<close> does not fail on a
  value made of strings and string-keyed maps, so the branch
  \<^verbatim>\<open>failed to marshal request\<close> cannot be taken.
\<close>

record http_request =
  req_url :: string
  req_content_type :: string
  req_authorization :: string
  req_body :: GraphQLRequest

text \<open>What \<^verbatim>\<open>client.Do\<close> followed by \<^verbatim>\<open>io.ReadAll\<close> gives: status code and body.\<close>

datatype http_outcome =
    DoError error
  | ReadError error
  | HttpResponse int string

record mail_message =
  mail_from :: string
  mail_subject :: string
  mail_text :: string
  mail_to :: string
  mail_reply_to :: string

text \<open>The struct a \<open>data\<close> payload is decoded into.\<close>

datatype search_target = Companies | People

datatype create_target = CreateCompany | CreatePerson | CreateOpportunity

text \<open>
  Everything outside the program, over an external world \<open>'w\<close> (the CRM and the mail
  provider, which may answer differently at each call):
  \<^item> \<open>Getenv\<close>: the process environment;
  \<^item> \<open>DecodeContact\<close>: \<^verbatim>\<open>json.NewDecoder(r.Body).Decode\<close> into a \<open>ContactRequest\<close>;
  \<^item> \<open>NewRequest\<close>: the error of \<^verbatim>\<open>http.NewRequestWithContext\<close> for a URL, if any;
  \<^item> \<open>Do\<close>: the HTTP round trip and the read of the response body;
  \<^item> \<open>UnmarshalGraphQL\<close>: \<^verbatim>\<open>json.Unmarshal\<close> of a response body into a \<open>GraphQLResponse\<close>;
  \<^item> \<open>UnmarshalSearch\<close>: \<^verbatim>\<open>json.Unmarshal\<close> of \<open>data\<close> into a search result, read as the
    \<open>Node.ID\<close> of each edge, in order;
  \<^item> \<open>UnmarshalCreate\<close>: \<^verbatim>\<open>json.Unmarshal\<close> of \<open>data\<close> into a create result, read as its \<open>ID\<close>;
  \<^item> \<open>Send\<close>: \<^verbatim>\<open>mg.Send\<close> of the client made for a domain and an API key.
\<close>

record 'w env =
  Getenv :: "string \<Rightarrow> string"
  DecodeContact :: "string \<Rightarrow> error + ContactRequest"
  NewRequest :: "string \<Rightarrow> error option"
  Do :: "'w \<Rightarrow> http_request \<Rightarrow> http_outcome \<times> 'w"
  UnmarshalGraphQL :: "string \<Rightarrow> error + GraphQLResponse"
  UnmarshalSearch :: "search_target \<Rightarrow> string \<Rightarrow> error + string list"
  UnmarshalCreate :: "create_target \<Rightarrow> string \<Rightarrow> error + string"
  Send :: "'w \<Rightarrow> string \<Rightarrow> string \<Rightarrow> mail_message \<Rightarrow> error option \<times> 'w"

text \<open>The lines written with \<^verbatim>\<open>log.Printf\<close>.\<close>

datatype log_entry =
    LogLeadFailed error
  | LogCreatedLead string
  | LogFoundExisting string
  | LogCompanyFailed error
  | LogEmailFailed error

text \<open>
  The state threaded through a request: the external world, and a record of what the
  program did to it, oldest first: the GraphQL operations sent, the mails handed to the
  provider, the log lines.
\<close>

record 'w machine =
  world :: 'w
  sent :: "GraphQLRequest list"
  mails :: "mail_message list"
  logged :: "log_entry list"

definition logPrintf :: "log_entry \<Rightarrow> 'w machine \<Rightarrow> 'w machine" where
  "logPrintf l s = s\<lparr>logged := logged s @ [l]\<rparr>"

section \<open>CRM client\<close>

definition executeTwentyGraphQL ::
  "'w env \<Rightarrow> string \<Rightarrow> string \<Rightarrow> string \<Rightarrow> jmap \<Rightarrow> 'w machine
     \<Rightarrow> (error + GraphQLResponse) \<times> 'w machine" where
  "executeTwentyGraphQL env apiURL apiKey query variables s =
     (let reqBody = \<lparr>Query = query, Variables = variables\<rparr> in
      case NewRequest env (apiURL @ ''/graphql'') of
        Some err \<Rightarrow> (Inl (CreateRequestFailed err), s)
      | None \<Rightarrow>
          let httpReq = \<lparr>req_url = apiURL @ ''/graphql'',
                         req_content_type = ''application/json'',
                         req_authorization = ''Bearer '' @ apiKey,
                         req_body = reqBody\<rparr>;
              (outcome, w) = Do env (world s) httpReq;
              s' = s\<lparr>world := w, sent := sent s @ [reqBody]\<rparr>
          in case outcome of
               DoError err \<Rightarrow> (Inl (ExecuteRequestFailed err), s')
             | ReadError err \<Rightarrow> (Inl (ReadResponseFailed err), s')
             | HttpResponse statusCode body \<Rightarrow>
                 if statusCode \<noteq> 200 then (Inl (UnexpectedStatus statusCode body), s')
                 else (case UnmarshalGraphQL env body of
                         Inl err \<Rightarrow> (Inl (ParseResponseFailed err), s')
                       | Inr gqlResp \<Rightarrow>
                           if length (Errors gqlResp) > 0
                           then (Inl (GraphqlError (hd (Errors gqlResp))), s')
                           else (Inr gqlResp, s')))"

section \<open>Lead reconciler\<close>

subsection \<open>Operations and their variables\<close>

definition findCompanyQuery :: string where
  "findCompanyQuery =
     ''\<newline>'' @
     [CHR 0x09, CHR 0x09] @ ''query FindCompany($filter: CompanyFilterInput) {\<newline>'' @
     [CHR 0x09, CHR 0x09, CHR 0x09] @ ''companies(filter: $filter) {\<newline>'' @
     [CHR 0x09, CHR 0x09, CHR 0x09, CHR 0x09] @ ''edges {\<newline>'' @
     [CHR 0x09, CHR 0x09, CHR 0x09, CHR 0x09, CHR 0x09] @ ''node {\<newline>'' @
     [CHR 0x09, CHR 0x09, CHR 0x09, CHR 0x09, CHR 0x09, CHR 0x09] @ ''id\<newline>'' @
     [CHR 0x09, CHR 0x09, CHR 0x09, CHR 0x09, CHR 0x09, CHR 0x09] @ ''name\<newline>'' @
     [CHR 0x09, CHR 0x09, CHR 0x09, CHR 0x09, CHR 0x09] @ ''}\<newline>'' @
     [CHR 0x09, CHR 0x09, CHR 0x09, CHR 0x09] @ ''}\<newline>'' @
     [CHR 0x09, CHR 0x09, CHR 0x09] @ ''}\<newline>'' @
     [CHR 0x09, CHR 0x09] @ ''}\<newline>'' @
     [CHR 0x09]"

definition createCompanyQuery :: string where
  "createCompanyQuery =
     ''\<newline>'' @
     [CHR 0x09, CHR 0x09] @ ''mutation CreateCompany($input: CompanyCreateInput!) {\<newline>'' @
     [CHR 0x09, CHR 0x09, CHR 0x09] @ ''createCompany(data: $input) {\<newline>'' @
     [CHR 0x09, CHR 0x09, CHR 0x09, CHR 0x09] @ ''id\<newline>'' @
     [CHR 0x09, CHR 0x09, CHR 0x09] @ ''}\<newline>'' @
     [CHR 0x09, CHR 0x09] @ ''}\<newline>'' @
     [CHR 0x09]"

definition findPersonQuery :: string where
  "findPersonQuery =
     ''\<newline>'' @
     [CHR 0x09, CHR 0x09] @ ''query FindPerson($filter: PersonFilterInput) {\<newline>'' @
     [CHR 0x09, CHR 0x09, CHR 0x09] @ ''people(filter: $filter) {\<newline>'' @
     [CHR 0x09, CHR 0x09, CHR 0x09, CHR 0x09] @ ''edges {\<newline>'' @
     [CHR 0x09, CHR 0x09, CHR 0x09, CHR 0x09, CHR 0x09] @ ''node {\<newline>'' @
     [CHR 0x09, CHR 0x09, CHR 0x09, CHR 0x09, CHR 0x09, CHR 0x09] @ ''id\<newline>'' @
     [CHR 0x09, CHR 0x09, CHR 0x09, CHR 0x09, CHR 0x09, CHR 0x09] @ ''emails {\<newline>'' @
     [CHR 0x09, CHR 0x09, CHR 0x09, CHR 0x09, CHR 0x09, CHR 0x09, CHR 0x09] @ ''primaryEmail\<newline>'' @
     [CHR 0x09, CHR 0x09, CHR 0x09, CHR 0x09, CHR 0x09, CHR 0x09] @ ''}\<newline>'' @
     [CHR 0x09, CHR 0x09, CHR 0x09, CHR 0x09, CHR 0x09] @ ''}\<newline>'' @
     [CHR 0x09, CHR 0x09, CHR 0x09, CHR 0x09] @ ''}\<newline>'' @
     [CHR 0x09, CHR 0x09, CHR 0x09] @ ''}\<newline>'' @
     [CHR 0x09, CHR 0x09] @ ''}\<newline>'' @
     [CHR 0x09]"

definition createPersonQuery :: string where
  "createPersonQuery =
     ''\<newline>'' @
     [CHR 0x09, CHR 0x09] @ ''mutation CreatePerson($input: PersonCreateInput!) {\<newline>'' @
     [CHR 0x09, CHR 0x09, CHR 0x09] @ ''createPerson(data: $input) {\<newline>'' @
     [CHR 0x09, CHR 0x09, CHR 0x09, CHR 0x09] @ ''id\<newline>'' @
     [CHR 0x09, CHR 0x09, CHR 0x09] @ ''}\<newline>'' @
     [CHR 0x09, CHR 0x09] @ ''}\<newline>'' @
     [CHR 0x09]"

definition createOpportunityQuery :: string where
  "createOpportunityQuery =
     ''\<newline>'' @
     [CHR 0x09, CHR 0x09] @ ''mutation CreateOpportunity($input: OpportunityCreateInput!) {\<newline>'' @
     [CHR 0x09, CHR 0x09, CHR 0x09] @ ''createOpportunity(data: $input) {\<newline>'' @
     [CHR 0x09, CHR 0x09, CHR 0x09, CHR 0x09] @ ''id\<newline>'' @
     [CHR 0x09, CHR 0x09, CHR 0x09] @ ''}\<newline>'' @
     [CHR 0x09, CHR 0x09] @ ''}\<newline>'' @
     [CHR 0x09]"

text \<open>The local \<open>searchVars\<close> of \<open>findOrCreateCompany\<close>.\<close>

definition findCompanyVars :: "string \<Rightarrow> jmap" where
  "findCompanyVars name =
     [(''filter'', JObject [(''name'', JObject [(''ilike'', JString (''%'' @ name @ ''%''))])])]"

text \<open>The local \<open>createVars\<close> of \<open>findOrCreateCompany\<close>.\<close>

definition createCompanyVars :: "string \<Rightarrow> jmap" where
  "createCompanyVars name = [(''input'', JObject [(''name'', JString name)])]"

text \<open>The local \<open>searchVars\<close> of \<open>findOrCreatePerson\<close>.\<close>

definition findPersonVars :: "string \<Rightarrow> jmap" where
  "findPersonVars email =
     [(''filter'', JObject [(''emails'', JObject [(''primaryEmail'',
        JObject [(''ilike'', JString email)])])])]"

text \<open>The local \<open>createVars\<close> of \<open>findOrCreatePerson\<close>.\<close>

definition createPersonVars :: "string \<Rightarrow> string \<Rightarrow> string \<Rightarrow> string \<Rightarrow> string \<Rightarrow> jmap" where
  "createPersonVars firstName lastName email phone companyID =
     (let input = [(''name'', JObject [(''firstName'', JString firstName),
                                        (''lastName'', JString lastName)]),
                   (''emails'', JObject [(''primaryEmail'', JString email)])];
          normalizedPhone = normalizePhone phone;
          input = (if normalizedPhone \<noteq> []
                   then AList.update ''phones''
                          (JObject [(''primaryPhoneNumber'', JString normalizedPhone)]) input
                   else input);
          input = (if companyID \<noteq> []
                   then AList.update ''companyId'' (JString companyID) input
                   else input)
      in [(''input'', JObject input)])"

text \<open>The local \<open>variables\<close> of \<open>createTwentyOpportunity\<close>.\<close>

definition createOpportunityVars :: "string \<Rightarrow> string \<Rightarrow> string \<Rightarrow> string \<Rightarrow> jmap" where
  "createOpportunityVars name message personID companyID =
     (let input = [(''name'', JString name), (''stage'', JString ''NEW'')];
          input = (if personID \<noteq> []
                   then AList.update ''pointOfContactId'' (JString personID) input
                   else input);
          input = (if companyID \<noteq> []
                   then AList.update ''companyId'' (JString companyID) input
                   else input)
      in [(''input'', JObject input)])"

subsection \<open>Find or create\<close>

definition findOrCreateCompany ::
  "'w env \<Rightarrow> string \<Rightarrow> string \<Rightarrow> string \<Rightarrow> 'w machine \<Rightarrow> (error + string) \<times> 'w machine" where
  "findOrCreateCompany env apiURL apiKey name s =
     (let (resp, s1) = executeTwentyGraphQL env apiURL apiKey findCompanyQuery
                         (findCompanyVars name) s;
          found = (case resp of
                     Inl err \<Rightarrow> None
                   | Inr r \<Rightarrow>
                       (case UnmarshalSearch env Companies (Data r) of
                          Inl err \<Rightarrow> None
                        | Inr edges \<Rightarrow> if length edges > 0 then Some (hd edges) else None))
      in case found of
           Some companyID \<Rightarrow> (Inr companyID, s1)
         | None \<Rightarrow>
             let (resp, s2) = executeTwentyGraphQL env apiURL apiKey createCompanyQuery
                                (createCompanyVars name) s1
             in case resp of
                  Inl err \<Rightarrow> (Inl err, s2)
                | Inr r \<Rightarrow>
                    (case UnmarshalCreate env CreateCompany (Data r) of
                       Inl err \<Rightarrow> (Inl (ParseCompanyResponse err), s2)
                     | Inr companyID \<Rightarrow> (Inr companyID, s2)))"

definition findOrCreatePerson ::
  "'w env \<Rightarrow> string \<Rightarrow> string \<Rightarrow> string \<Rightarrow> string \<Rightarrow> string \<Rightarrow> string \<Rightarrow> string \<Rightarrow> 'w machine
     \<Rightarrow> (error + string \<times> bool) \<times> 'w machine" where
  "findOrCreatePerson env apiURL apiKey firstName lastName email phone companyID s =
     (let (resp, s1) = executeTwentyGraphQL env apiURL apiKey findPersonQuery
                         (findPersonVars email) s;
          found = (case resp of
                     Inl err \<Rightarrow> None
                   | Inr r \<Rightarrow>
                       (case UnmarshalSearch env People (Data r) of
                          Inl err \<Rightarrow> None
                        | Inr edges \<Rightarrow> if length edges > 0 then Some (hd edges) else None))
      in case found of
           Some personID \<Rightarrow> (Inr (personID, False), s1)
         | None \<Rightarrow>
             let (resp, s2) = executeTwentyGraphQL env apiURL apiKey createPersonQuery
                                (createPersonVars firstName lastName email phone companyID) s1
             in case resp of
                  Inl err \<Rightarrow> (Inl err, s2)
                | Inr r \<Rightarrow>
                    (case UnmarshalCreate env CreatePerson (Data r) of
                       Inl err \<Rightarrow> (Inl (ParsePersonResponse err), s2)
                     | Inr personID \<Rightarrow> (Inr (personID, True), s2)))"

definition createTwentyOpportunity ::
  "'w env \<Rightarrow> string \<Rightarrow> string \<Rightarrow> string \<Rightarrow> string \<Rightarrow> string \<Rightarrow> string \<Rightarrow> 'w machine
     \<Rightarrow> (error + string) \<times> 'w machine" where
  "createTwentyOpportunity env apiURL apiKey name message personID companyID s =
     (let (resp, s1) = executeTwentyGraphQL env apiURL apiKey createOpportunityQuery
                         (createOpportunityVars name message personID companyID) s
      in case resp of
           Inl err \<Rightarrow> (Inl err, s1)
         | Inr r \<Rightarrow>
             (case UnmarshalCreate env CreateOpportunity (Data r) of
                Inl err \<Rightarrow> (Inl (ParseOpportunityResponse err), s1)
              | Inr opportunityID \<Rightarrow> (Inr opportunityID, s1)))"

subsection \<open>Splitting the name\<close>

text \<open>
  \<^verbatim>\<open>strings.TrimSpace\<close> removes, at both ends, every code point for which
  \<^verbatim>\<open>unicode.IsSpace\<close> holds. On the bytes of the string these are the UTF-8 encodings
  below: \<^verbatim>\<open>\t \n \v \f \r\<close>, space, U+0085, U+00A0, U+1680, U+2000 to U+200A, U+2028,
  U+2029, U+202F, U+205F and U+3000. A byte sequence that does not decode to one of
  them (an invalid or overlong encoding too) stops the trimming.
\<close>

definition spaceSeqs :: "string list" where
  "spaceSeqs =
     [[CHR 0x09], [CHR 0x0A], [CHR 0x0B], [CHR 0x0C], [CHR 0x0D], [CHR 0x20],
      [CHR 0xC2, CHR 0x85], [CHR 0xC2, CHR 0xA0], [CHR 0xE1, CHR 0x9A, CHR 0x80],
      [CHR 0xE2, CHR 0x80, CHR 0x80], [CHR 0xE2, CHR 0x80, CHR 0x81],
      [CHR 0xE2, CHR 0x80, CHR 0x82], [CHR 0xE2, CHR 0x80, CHR 0x83],
      [CHR 0xE2, CHR 0x80, CHR 0x84], [CHR 0xE2, CHR 0x80, CHR 0x85],
      [CHR 0xE2, CHR 0x80, CHR 0x86], [CHR 0xE2, CHR 0x80, CHR 0x87],
      [CHR 0xE2, CHR 0x80, CHR 0x88], [CHR 0xE2, CHR 0x80, CHR 0x89],
      [CHR 0xE2, CHR 0x80, CHR 0x8A], [CHR 0xE2, CHR 0x80, CHR 0xA8],
      [CHR 0xE2, CHR 0x80, CHR 0xA9], [CHR 0xE2, CHR 0x80, CHR 0xAF],
      [CHR 0xE2, CHR 0x81, CHR 0x9F], [CHR 0xE3, CHR 0x80, CHR 0x80]]"

text \<open>The width in bytes of the white-space code point a string starts with; 0 if none.\<close>

definition leadingSpace :: "string \<Rightarrow> nat" where
  "leadingSpace s = (case find (\<lambda>p. prefix p s) spaceSeqs of None \<Rightarrow> 0 | Some p \<Rightarrow> length p)"

text \<open>The same for the code point a string ends with.\<close>

definition trailingSpace :: "string \<Rightarrow> nat" where
  "trailingSpace s = (case find (\<lambda>p. suffix p s) spaceSeqs of None \<Rightarrow> 0 | Some p \<Rightarrow> length p)"

function TrimLeft :: "string \<Rightarrow> string" where
  "TrimLeft s = (if leadingSpace s = 0 then s else TrimLeft (drop (leadingSpace s) s))"
  by pat_completeness auto
termination
proof (relation "measure length")
  show "wf (measure length)" by simp
next
  fix s :: string
  assume a: "leadingSpace s \<noteq> 0"
  then obtain p where p: "find (\<lambda>p. prefix p s) spaceSeqs = Some p"
    by (auto simp: leadingSpace_def split: option.splits)
  then have "prefix p s" and "p \<in> set spaceSeqs"
    by (auto simp: find_Some_iff)
  moreover have "\<forall>q \<in> set spaceSeqs. q \<noteq> []"
    by (simp add: spaceSeqs_def)
  ultimately have "s \<noteq> []" by auto
  then show "(drop (leadingSpace s) s, s) \<in> measure length"
    using a by simp
qed

function TrimRight :: "string \<Rightarrow> string" where
  "TrimRight s =
     (if trailingSpace s = 0 then s else TrimRight (take (length s - trailingSpace s) s))"
  by pat_completeness auto
termination
proof (relation "measure length")
  show "wf (measure length)" by simp
next
  fix s :: string
  assume a: "trailingSpace s \<noteq> 0"
  then obtain p where p: "find (\<lambda>p. suffix p s) spaceSeqs = Some p"
    by (auto simp: trailingSpace_def split: option.splits)
  then have "suffix p s" and "p \<in> set spaceSeqs"
    by (auto simp: find_Some_iff)
  moreover have "\<forall>q \<in> set spaceSeqs. q \<noteq> []"
    by (simp add: spaceSeqs_def)
  ultimately have "s \<noteq> []" by auto
  then show "(take (length s - trailingSpace s) s, s) \<in> measure length"
    using a by simp
qed

definition TrimSpace :: "string \<Rightarrow> string" where
  "TrimSpace s = TrimRight (TrimLeft s)"

text \<open>
  \<^verbatim>\<open>strings.SplitN(s, " ", 2)\<close>: the string itself when it has no space, else the part
  before the first space and the part after it. The result is never empty.
\<close>

definition SplitN2 :: "string \<Rightarrow> string list" where
  "SplitN2 s =
     (if CHR '' '' \<in> set s
      then [takeWhile (\<lambda>c. c \<noteq> CHR '' '') s, tl (dropWhile (\<lambda>c. c \<noteq> CHR '' '') s)]
      else [s])"

subsection \<open>Reconciliation\<close>

text \<open>The zero value \<^verbatim>\<open>&LeadResult{}\<close>.\<close>

definition newLeadResult :: LeadResult where
  "newLeadResult = \<lparr>PersonID = [], CompanyID = [], OpportunityID = [], IsNewPerson = False\<rparr>"

text \<open>The locals \<open>nameParts\<close>, \<open>firstName\<close> and \<open>lastName\<close> of \<open>createTwentyLead\<close>.\<close>

definition splitName :: "string \<Rightarrow> string \<times> string" where
  "splitName name =
     (let nameParts = SplitN2 (TrimSpace name);
          firstName = hd nameParts;
          lastName = (if length nameParts > 1 then nameParts ! 1 else [])
      in (firstName, lastName))"

text \<open>Step 1 of \<open>createTwentyLead\<close>: create or find the company, if one was given.\<close>

definition companyStep ::
  "'w env \<Rightarrow> string \<Rightarrow> string \<Rightarrow> ContactRequest \<Rightarrow> LeadResult \<Rightarrow> 'w machine
     \<Rightarrow> LeadResult \<times> 'w machine" where
  "companyStep env apiURL apiKey req result s =
     (if Company req \<noteq> [] then
        (case findOrCreateCompany env apiURL apiKey (Company req) s of
           (Inl err, s') \<Rightarrow> (result, logPrintf (LogCompanyFailed err) s')
         | (Inr companyID, s') \<Rightarrow> (result\<lparr>CompanyID := companyID\<rparr>, s'))
      else (result, s))"

text \<open>The local \<open>opportunityName\<close> of \<open>createTwentyLead\<close>.\<close>

definition opportunityName :: "ContactRequest \<Rightarrow> string" where
  "opportunityName req =
     (if Service req = [] then Name req @ '' - Website Inquiry''
      else Name req @ '' - '' @ Service req)"

definition createTwentyLead ::
  "'w env \<Rightarrow> ContactRequest \<Rightarrow> 'w machine \<Rightarrow> (error + LeadResult) \<times> 'w machine" where
  "createTwentyLead env req s =
     (let apiURL = Getenv env ''TWENTY_API_URL'';
          apiKey = Getenv env ''TWENTY_API_KEY''
      in if apiURL = [] \<or> apiKey = [] then (Inl TwentyConfigMissing, s)
         else
           let result = newLeadResult;
               (firstName, lastName) = splitName (Name req);
               (result, s1) = companyStep env apiURL apiKey req result s
           in case findOrCreatePerson env apiURL apiKey firstName lastName (Email req)
                     (Phone req) (CompanyID result) s1 of
                (Inl err, s2) \<Rightarrow> (Inl (FindCreatePersonFailed err), s2)
              | (Inr (personID, isNew), s2) \<Rightarrow>
                  let result = result\<lparr>PersonID := personID, IsNewPerson := isNew\<rparr>
                  in case createTwentyOpportunity env apiURL apiKey (opportunityName req)
                            (Message req) (PersonID result) (CompanyID result) s2 of
                       (Inl err, s3) \<Rightarrow> (Inl (CreateOpportunityFailed err), s3)
                     | (Inr opportunityID, s3) \<Rightarrow>
                         (Inr (result\<lparr>OpportunityID := opportunityID\<rparr>), s3))"

section \<open>Notification composer\<close>

definition heavyRule :: string where
  "heavyRule = concat (replicate 20 [CHR 0xE2, CHR 0x94, CHR 0x81])"

text \<open>The local \<open>crmLink\<close>, \<open>personStatus\<close>, \<open>subject\<close> and \<open>body\<close> of \<open>sendNotificationEmail\<close>.\<close>

definition crmLink :: "string \<Rightarrow> LeadResult option \<Rightarrow> string" where
  "crmLink crmURL lead =
     (case lead of
        None \<Rightarrow> []
      | Some l \<Rightarrow>
          if OpportunityID l \<noteq> []
          then ''\<newline>\<newline>'' @ [CHR 0xF0, CHR 0x9F, CHR 0x93, CHR 0x8A] @ '' View in CRM: '' @
               crmURL @ ''/objects/opportunities/'' @ OpportunityID l
          else [])"

definition personStatus :: "LeadResult option \<Rightarrow> string" where
  "personStatus lead =
     (case lead of
        None \<Rightarrow> ''New contact''
      | Some l \<Rightarrow>
          if \<not> IsNewPerson l then ''Existing contact (returning lead)'' else ''New contact'')"

definition notificationSubject :: "ContactRequest \<Rightarrow> string" where
  "notificationSubject req = [CHR 0xF0, CHR 0x9F, CHR 0x8E, CHR 0xAF] @ '' New Lead: '' @ Name req"

definition notificationBody :: "ContactRequest \<Rightarrow> string \<Rightarrow> string \<Rightarrow> string" where
  "notificationBody req status link =
     ''New lead from sogos.io website!\<newline>'' @
     ''\<newline>'' @
     [CHR 0xF0, CHR 0x9F, CHR 0x91, CHR 0xA4] @ '' Contact Information\<newline>'' @
     heavyRule @ ''\<newline>'' @
     ''Name: '' @ Name req @ ''\<newline>'' @
     ''Company: '' @ Company req @ ''\<newline>'' @
     ''Email: '' @ Email req @ ''\<newline>'' @
     ''Phone: '' @ Phone req @ ''\<newline>'' @
     ''Service Interest: '' @ Service req @ ''\<newline>'' @
     ''Status: '' @ status @ ''\<newline>'' @
     ''\<newline>'' @
     [CHR 0xF0, CHR 0x9F, CHR 0x92, CHR 0xAC] @ '' Message\<newline>'' @
     heavyRule @ ''\<newline>'' @
     Message req @ ''\<newline>'' @
     link @ ''\<newline>''"

definition sendNotificationEmail ::
  "'w env \<Rightarrow> ContactRequest \<Rightarrow> LeadResult option \<Rightarrow> 'w machine \<Rightarrow> error option \<times> 'w machine" where
  "sendNotificationEmail env req lead s =
     (let apiKey = Getenv env ''MAILGUN_API_KEY'';
          domain = Getenv env ''MAILGUN_DOMAIN'';
          recipient = Getenv env ''CONTACT_EMAIL'';
          crmURL = Getenv env ''TWENTY_API_URL''
      in if apiKey = [] \<or> domain = [] then (Some MailgunConfigMissing, s)
         else
           let recipient = (if recipient = [] then ''john@sogos.io'' else recipient);
               m = \<lparr>mail_from = ''Sogos CRM <noreply@'' @ domain @ ''>'',
                    mail_subject = notificationSubject req,
                    mail_text = notificationBody req (personStatus lead) (crmLink crmURL lead),
                    mail_to = recipient,
                    mail_reply_to = Email req\<rparr>;
               (err, w) = Send env (world s) domain apiKey m
           in (err, s\<lparr>world := w, mails := mails s @ [m]\<rparr>))"

section \<open>Request handler\<close>

record http_in =
  Method :: string
  Body :: string

datatype payload = PlainText string | JSON Response

record http_out =
  StatusCode :: int
  ContentType :: string
  Payload :: payload

definition sendJSON :: "int \<Rightarrow> Response \<Rightarrow> http_out" where
  "sendJSON status data =
     \<lparr>StatusCode = status, ContentType = ''application/json'', Payload = JSON data\<rparr>"

text \<open>\<^verbatim>\<open>http.Error\<close>: a plain-text answer, the message followed by a newline.\<close>

definition httpError :: "string \<Rightarrow> int \<Rightarrow> http_out" where
  "httpError msg code =
     \<lparr>StatusCode = code, ContentType = ''text/plain; charset=utf-8'',
      Payload = PlainText (msg @ ''\<newline>'')\<rparr>"

text \<open>
  The first half of \<open>handleContact\<close> after validation: reconcile the lead and log the
  outcome; a failure leaves \<open>leadResult\<close> nil.
\<close>

definition leadStep ::
  "'w env \<Rightarrow> ContactRequest \<Rightarrow> 'w machine \<Rightarrow> LeadResult option \<times> 'w machine" where
  "leadStep env req s =
     (case createTwentyLead env req s of
        (Inl crmErr, s') \<Rightarrow> (None, logPrintf (LogLeadFailed crmErr) s')
      | (Inr lead, s') \<Rightarrow>
          (Some lead,
           if IsNewPerson lead then logPrintf (LogCreatedLead (Email req)) s'
           else logPrintf (LogFoundExisting (Email req)) s'))"

definition invalidBody :: Response where
  "invalidBody = \<lparr>Success = False, ResponseMessage = ''Invalid request body''\<rparr>"

definition missingFields :: Response where
  "missingFields = \<lparr>Success = False, ResponseMessage = ''Name and email are required''\<rparr>"

definition sendFailed :: Response where
  "sendFailed =
     \<lparr>Success = False, ResponseMessage = ''Failed to send message. Please try again later.''\<rparr>"

definition thankYou :: Response where
  "thankYou =
     \<lparr>Success = True,
      ResponseMessage =
        ''Thank you for reaching out. We'' @ [CHR 0x27] @ ''ll be in touch within 24 hours.''\<rparr>"

definition handleContact :: "'w env \<Rightarrow> http_in \<Rightarrow> 'w machine \<Rightarrow> http_out \<times> 'w machine" where
  "handleContact env r s =
     (if Method r \<noteq> ''POST'' then (httpError ''Method not allowed'' 405, s)
      else case DecodeContact env (Body r) of
        Inl err \<Rightarrow> (sendJSON 400 invalidBody, s)
      | Inr req \<Rightarrow>
          if Name req = [] \<or> Email req = [] then (sendJSON 400 missingFields, s)
          else
            let (leadResult, s1) = leadStep env req s
            in case sendNotificationEmail env req leadResult s1 of
                 (Some err, s2) \<Rightarrow> (sendJSON 500 sendFailed, logPrintf (LogEmailFailed err) s2)
               | (None, s2) \<Rightarrow> (sendJSON 200 thankYou, s2))"

section \<open>Vocabulary of the properties\<close>

text \<open>
  \<open>jget path v\<close> reads the value at a path of keys inside a JSON value.
\<close>

fun jget :: "string list \<Rightarrow> jvalue \<Rightarrow> jvalue option" where
  "jget [] v = Some v"
| "jget (k # ks) (JObject m) = (case map_of m k of None \<Rightarrow> None | Some v \<Rightarrow> jget ks v)"
| "jget (k # ks) (JString x) = None"

text \<open>
  The person search as the specification words it: a substring match, the email wrapped
  in wildcards as the company search wraps the name. It is compared below with
  \<open>findPersonVars\<close>, which is what the program sends.
\<close>

definition specFindPersonVars :: "string \<Rightarrow> jmap" where
  "specFindPersonVars email =
     [(''filter'', JObject [(''emails'', JObject [(''primaryEmail'',
        JObject [(''ilike'', JString (''%'' @ email @ ''%''))])])])]"

text \<open>
  The email send of the handling of a valid submission fails: \<open>sendNotificationEmail\<close>,
  called as \<open>handleContact\<close> calls it, returns an error.
\<close>

definition emailSendFails :: "'w env \<Rightarrow> ContactRequest \<Rightarrow> 'w machine \<Rightarrow> bool" where
  "emailSendFails env req s =
     (let (leadResult, s1) = leadStep env req s
      in fst (sendNotificationEmail env req leadResult s1) \<noteq> None)"

text \<open>
  A search call found no record: it failed, its payload did not decode, or it has no
  edge. A create call failed: it failed or its payload did not decode.
\<close>

definition noMatch :: "'w env \<Rightarrow> search_target \<Rightarrow> error + GraphQLResponse \<Rightarrow> bool" where
  "noMatch env t resp =
     (case resp of
        Inl err \<Rightarrow> True
      | Inr r \<Rightarrow> (case UnmarshalSearch env t (Data r) of Inl err \<Rightarrow> True | Inr edges \<Rightarrow> edges = []))"

definition createFails :: "'w env \<Rightarrow> create_target \<Rightarrow> error + GraphQLResponse \<Rightarrow> bool" where
  "createFails env t resp =
     (case resp of
        Inl err \<Rightarrow> True
      | Inr r \<Rightarrow> (case UnmarshalCreate env t (Data r) of Inl err \<Rightarrow> True | Inr i \<Rightarrow> False))"

section \<open>Example environment\<close>

text \<open>
  A CRM that answers from a script, one outcome for each call in turn and a refused
  connection once the script is used up; a mail provider that accepts every message;
  and \<open>json.Unmarshal\<close> tabulated on the bodies this CRM sends.
\<close>

definition demoGetenv :: "string \<Rightarrow> string" where
  "demoGetenv k =
     (case map_of [(''TWENTY_API_URL'', ''https://crm.example.com''),
                   (''TWENTY_API_KEY'', ''crm-key''),
                   (''MAILGUN_API_KEY'', ''mg-key''),
                   (''MAILGUN_DOMAIN'', ''mg.example.com'')] k of
        None \<Rightarrow> [] | Some v \<Rightarrow> v)"

definition janeBody :: string where
  \<open>janeBody = ''{"name":"Jane Doe","company":"Acme","email":"jane@x.com","phone":"555-123-4567","service":"","message":"hi"}''\<close>

definition janeReq :: ContactRequest where
  "janeReq = \<lparr>Name = ''Jane Doe'', Company = ''Acme'', Email = ''jane@x.com'',
     Phone = ''555-123-4567'', Message = ''hi'', Service = []\<rparr>"

definition blankBody :: string where
  \<open>blankBody = ''{"name":" ","email":"a@b.c"}''\<close>

definition blankReq :: ContactRequest where
  "blankReq = \<lparr>Name = '' '', Company = [], Email = ''a@b.c'', Phone = [], Message = [],
     Service = []\<rparr>"

definition namelessBody :: string where
  \<open>namelessBody = ''{"email":"a@b.c"}''\<close>

definition namelessReq :: ContactRequest where
  "namelessReq = \<lparr>Name = [], Company = [], Email = ''a@b.c'', Phone = [], Message = [],
     Service = []\<rparr>"

definition demoDecodeContact :: "string \<Rightarrow> error + ContactRequest" where
  "demoDecodeContact b =
     (case map_of [(janeBody, janeReq), (blankBody, blankReq), (namelessBody, namelessReq)] b of
        None \<Rightarrow> Inl (External ''unexpected end of JSON input'') | Some req \<Rightarrow> Inr req)"

definition noCompaniesBody :: string where
  \<open>noCompaniesBody = ''{"data":{"companies":{"edges":[]}}}''\<close>

definition noCompaniesData :: string where
  \<open>noCompaniesData = ''{"companies":{"edges":[]}}''\<close>

definition companyCreatedBody :: string where
  \<open>companyCreatedBody = ''{"data":{"createCompany":{"id":"c-1"}}}''\<close>

definition companyCreatedData :: string where
  \<open>companyCreatedData = ''{"createCompany":{"id":"c-1"}}''\<close>

definition noPeopleBody :: string where
  \<open>noPeopleBody = ''{"data":{"people":{"edges":[]}}}''\<close>

definition noPeopleData :: string where
  \<open>noPeopleData = ''{"people":{"edges":[]}}''\<close>

definition onePersonBody :: string where
  \<open>onePersonBody = ''{"data":{"people":{"edges":[{"node":{"id":"p-7","emails":{"primaryEmail":"jane@x.com"}}}]}}}''\<close>

definition onePersonData :: string where
  \<open>onePersonData = ''{"people":{"edges":[{"node":{"id":"p-7","emails":{"primaryEmail":"jane@x.com"}}}]}}''\<close>

definition personCreatedBody :: string where
  \<open>personCreatedBody = ''{"data":{"createPerson":{"id":"p-1"}}}''\<close>

definition personCreatedData :: string where
  \<open>personCreatedData = ''{"createPerson":{"id":"p-1"}}''\<close>

definition opportunityCreatedBody :: string where
  \<open>opportunityCreatedBody = ''{"data":{"createOpportunity":{"id":"o-1"}}}''\<close>

definition opportunityCreatedData :: string where
  \<open>opportunityCreatedData = ''{"createOpportunity":{"id":"o-1"}}''\<close>

definition emptyDataBody :: string where
  \<open>emptyDataBody = ''{"data":{}}''\<close>

definition duplicateBody :: string where
  \<open>duplicateBody = ''{"errors":[{"message":"duplicate entry"}]}''\<close>

definition demoUnmarshalGraphQL :: "string \<Rightarrow> error + GraphQLResponse" where
  "demoUnmarshalGraphQL b =
     (case map_of
        [(noCompaniesBody, \<lparr>Data = noCompaniesData, Errors = []\<rparr>),
         (companyCreatedBody, \<lparr>Data = companyCreatedData, Errors = []\<rparr>),
         (noPeopleBody, \<lparr>Data = noPeopleData, Errors = []\<rparr>),
         (onePersonBody, \<lparr>Data = onePersonData, Errors = []\<rparr>),
         (personCreatedBody, \<lparr>Data = personCreatedData, Errors = []\<rparr>),
         (opportunityCreatedBody, \<lparr>Data = opportunityCreatedData, Errors = []\<rparr>),
         (emptyDataBody, \<lparr>Data = ''{}'', Errors = []\<rparr>),
         (duplicateBody, \<lparr>Data = [], Errors = [''duplicate entry'']\<rparr>)] b of
        None \<Rightarrow> Inl (External ''invalid character'') | Some r \<Rightarrow> Inr r)"

definition demoUnmarshalSearch :: "search_target \<Rightarrow> string \<Rightarrow> error + string list" where
  "demoUnmarshalSearch t d =
     (case map_of
        [((Companies, noCompaniesData), []),
         ((People, noPeopleData), []),
         ((People, onePersonData), [''p-7'']),
         ((Companies, ''{}''), []),
         ((People, ''{}''), [])] (t, d) of
        None \<Rightarrow> Inl (External ''unexpected end of JSON input'') | Some ids \<Rightarrow> Inr ids)"

definition demoUnmarshalCreate :: "create_target \<Rightarrow> string \<Rightarrow> error + string" where
  "demoUnmarshalCreate t d =
     (case map_of
        [((CreateCompany, companyCreatedData), ''c-1''),
         ((CreatePerson, personCreatedData), ''p-1''),
         ((CreateOpportunity, opportunityCreatedData), ''o-1''),
         ((CreateCompany, ''{}''), []),
         ((CreatePerson, ''{}''), []),
         ((CreateOpportunity, ''{}''), [])] (t, d) of
        None \<Rightarrow> Inl (External ''unexpected end of JSON input'') | Some i \<Rightarrow> Inr i)"

definition demoDo :: "http_outcome list \<Rightarrow> http_request \<Rightarrow> http_outcome \<times> http_outcome list" where
  "demoDo w r =
     (case w of [] \<Rightarrow> (DoError (External ''connection refused''), [])
      | x # xs \<Rightarrow> (x, xs))"

definition demoEnv :: "http_outcome list env" where
  "demoEnv = \<lparr>Getenv = demoGetenv, DecodeContact = demoDecodeContact,
     NewRequest = (\<lambda>u. None), Do = demoDo, UnmarshalGraphQL = demoUnmarshalGraphQL,
     UnmarshalSearch = demoUnmarshalSearch, UnmarshalCreate = demoUnmarshalCreate,
     Send = (\<lambda>w domain apiKey m. (None, w))\<rparr>"

definition mailDownEnv :: "http_outcome list env" where
  "mailDownEnv = demoEnv\<lparr>Send := (\<lambda>w domain apiKey m. (Some (External ''mailgun: 401''), w))\<rparr>"

definition start :: "'w \<Rightarrow> 'w machine" where
  "start w = \<lparr>world = w, sent = [], mails = [], logged = []\<rparr>"

definition refused :: http_outcome where
  "refused = DoError (External ''connection refused'')"

definition emptyCRM :: "http_outcome list" where
  "emptyCRM =
     [HttpResponse 200 noCompaniesBody, HttpResponse 200 companyCreatedBody,
      HttpResponse 200 noPeopleBody, HttpResponse 200 personCreatedBody,
      HttpResponse 200 opportunityCreatedBody]"

definition companyDown :: "http_outcome list" where
  "companyDown =
     [refused, refused, HttpResponse 200 noPeopleBody, HttpResponse 200 personCreatedBody,
      HttpResponse 200 opportunityCreatedBody]"

definition companyDownNoIds :: "http_outcome list" where
  "companyDownNoIds =
     [refused, refused, HttpResponse 200 emptyDataBody, HttpResponse 200 emptyDataBody,
      HttpResponse 200 emptyDataBody]"

definition personRejected :: "http_outcome list" where
  "personRejected =
     [HttpResponse 200 noCompaniesBody, HttpResponse 200 companyCreatedBody,
      HttpResponse 200 noPeopleBody, HttpResponse 200 duplicateBody]"

definition knownPerson :: "http_outcome list" where
  "knownPerson =
     [HttpResponse 200 noCompaniesBody, HttpResponse 200 companyCreatedBody,
      HttpResponse 200 onePersonBody, HttpResponse 200 opportunityCreatedBody]"

definition janePost :: http_in where
  "janePost = \<lparr>Method = ''POST'', Body = janeBody\<rparr>"

definition blankPost :: http_in where
  "blankPost = \<lparr>Method = ''POST'', Body = blankBody\<rparr>"

definition namelessPost :: http_in where
  "namelessPost = \<lparr>Method = ''POST'', Body = namelessBody\<rparr>"

section \<open>Properties of the phone normalizer\<close>

lemma stripNonDigits_idem: "stripNonDigits (stripNonDigits xs) = stripNonDigits xs"
  by (simp add: stripNonDigits_def)

lemma stripNonDigits_plus: "stripNonDigits (CHR ''+'' # xs) = stripNonDigits xs"
  by (simp add: stripNonDigits_def isDigit_def)

lemma stripNonDigits_one: "stripNonDigits (CHR ''1'' # xs) = CHR ''1'' # stripNonDigits xs"
  by (simp add: stripNonDigits_def isDigit_def)

lemma stripNonDigits_empty: "stripNonDigits '''' = ''''"
  by (simp add: stripNonDigits_def)

lemma normalizePhone_cases:
  "normalizePhone x =
     (if length (stripNonDigits x) < 10 then ''''
      else if length (stripNonDigits x) = 10 then ''+1'' @ stripNonDigits x
      else ''+'' @ stripNonDigits x)"
  by (auto simp: normalizePhone_def Let_def stripNonDigits_def)

text \<open>
  C5. With \<open>D\<close> the digits left after stripping every non-digit of the input: fewer than
  10 digits give the empty (absent) result; exactly 10 give \<open>+1\<close> followed by \<open>D\<close>;
  exactly 11 with a leading \<open>1\<close> give \<open>+\<close> followed by \<open>D\<close>; every other input gives
  \<open>+\<close> followed by \<open>D\<close>; and \<open>(555) 123-4567\<close> becomes \<open>+15551234567\<close>.
\<close>

theorem normalizePhone_spec:
  "(length (stripNonDigits x) < 10 \<longrightarrow> normalizePhone x = '''') \<and>
   (length (stripNonDigits x) = 10 \<longrightarrow> normalizePhone x = ''+1'' @ stripNonDigits x) \<and>
   (length (stripNonDigits x) = 11 \<and> hd (stripNonDigits x) = CHR ''1'' \<longrightarrow>
      normalizePhone x = ''+'' @ stripNonDigits x) \<and>
   (\<not> length (stripNonDigits x) < 10 \<and> length (stripNonDigits x) \<noteq> 10 \<longrightarrow>
      normalizePhone x = ''+'' @ stripNonDigits x) \<and>
   normalizePhone ''(555) 123-4567'' = ''+15551234567''"
proof -
  have ex: "normalizePhone ''(555) 123-4567'' = ''+15551234567''"
    by (simp add: normalizePhone_def stripNonDigits_def isDigit_def)
  show ?thesis
    using ex by (simp add: normalizePhone_cases)
qed

theorem normalizePhone_spec_witness:
  "length (stripNonDigits ''(555) 123-4567'') = 10 \<and>
   normalizePhone ''(555) 123-4567'' = ''+15551234567'' \<and>
   length (stripNonDigits ''555-1234'') < 10 \<and> normalizePhone ''555-1234'' = '''' \<and>
   length (stripNonDigits ''1 (555) 123-4567'') = 11 \<and>
   hd (stripNonDigits ''1 (555) 123-4567'') = CHR ''1'' \<and>
   normalizePhone ''1 (555) 123-4567'' = ''+15551234567'' \<and>
   \<not> length (stripNonDigits ''+44 20 7946 0958'') < 10 \<and>
   length (stripNonDigits ''+44 20 7946 0958'') \<noteq> 10 \<and>
   normalizePhone ''+44 20 7946 0958'' = ''+442079460958''"
  using normalizePhone_spec [of "''(555) 123-4567''"]
    normalizePhone_spec [of "''555-1234''"]
    normalizePhone_spec [of "''1 (555) 123-4567''"]
    normalizePhone_spec [of "''+44 20 7946 0958''"]
  by (simp add: stripNonDigits_def isDigit_def)

text \<open>
  C9. Phone normalization is idempotent: normalizing an already normalized phone
  returns it unchanged.
\<close>

theorem normalizePhone_idempotent: "normalizePhone (normalizePhone x) = normalizePhone x"
proof -
  let ?d = "stripNonDigits x"
  consider (short) "length ?d < 10" | (ten) "length ?d = 10" | (long) "10 < length ?d"
    by linarith
  then show ?thesis
  proof cases
    case short
    then have "normalizePhone x = ''''" by (simp add: normalizePhone_cases)
    then show ?thesis by (simp add: normalizePhone_def)
  next
    case ten
    then have nx: "normalizePhone x = CHR ''+'' # CHR ''1'' # ?d"
      by (simp add: normalizePhone_cases)
    have "stripNonDigits (CHR ''+'' # CHR ''1'' # ?d) = CHR ''1'' # ?d"
      by (simp add: stripNonDigits_plus stripNonDigits_one stripNonDigits_idem)
    then show ?thesis using ten
      by (simp add: nx normalizePhone_cases [of "CHR ''+'' # CHR ''1'' # ?d"])
  next
    case long
    then have nx: "normalizePhone x = CHR ''+'' # ?d"
      by (simp add: normalizePhone_cases)
    have "stripNonDigits (CHR ''+'' # ?d) = ?d"
      by (simp add: stripNonDigits_plus stripNonDigits_idem)
    then show ?thesis using long
      by (simp add: nx normalizePhone_cases [of "CHR ''+'' # ?d"])
  qed
qed

section \<open>What a call changes\<close>

lemma executeTwentyGraphQL_effect:
  assumes "executeTwentyGraphQL env u k q v s = (r, s')"
  shows "mails s' = mails s \<and> logged s' = logged s \<and>
     sent s' = sent s @ (if NewRequest env (u @ ''/graphql'') = None
                         then [\<lparr>Query = q, Variables = v\<rparr>] else [])"
  using assms
  by (auto simp: executeTwentyGraphQL_def Let_def
      split: option.splits prod.splits http_outcome.splits sum.splits if_splits)

lemma executeTwentyGraphQL_sent:
  assumes "executeTwentyGraphQL env u k q v s = (r, s')"
  shows "\<exists>new. sent s' = sent s @ new \<and> Query ` set new \<subseteq> {q}"
  using executeTwentyGraphQL_effect [OF assms] by auto

lemma findOrCreateCompany_sent:
  assumes "findOrCreateCompany env u k n s = (r, s')"
  shows "\<exists>new. sent s' = sent s @ new \<and> Query ` set new \<subseteq> {findCompanyQuery, createCompanyQuery}"
proof -
  obtain r1 s1 where e1: "executeTwentyGraphQL env u k findCompanyQuery (findCompanyVars n) s = (r1, s1)"
    by force
  obtain r2 s2 where e2: "executeTwentyGraphQL env u k createCompanyQuery (createCompanyVars n) s1 = (r2, s2)"
    by force
  from executeTwentyGraphQL_sent [OF e1] obtain n1 where
    n1: "sent s1 = sent s @ n1" "Query ` set n1 \<subseteq> {findCompanyQuery}" by blast
  from executeTwentyGraphQL_sent [OF e2] obtain n2 where
    n2: "sent s2 = sent s1 @ n2" "Query ` set n2 \<subseteq> {createCompanyQuery}" by blast
  have "s' = s1 \<or> s' = s2"
    using assms e1 e2
    by (auto simp: findOrCreateCompany_def Let_def split: option.splits sum.splits if_splits)
  then show ?thesis
  proof
    assume "s' = s1" then show ?thesis using n1 by auto
  next
    assume "s' = s2"
    then have "sent s' = sent s @ (n1 @ n2)" using n1 n2 by simp
    moreover have "Query ` set (n1 @ n2) \<subseteq> {findCompanyQuery, createCompanyQuery}"
      using n1 n2 by auto
    ultimately show ?thesis by blast
  qed
qed

lemma logPrintf_simps [simp]:
  "sent (logPrintf l s) = sent s" "mails (logPrintf l s) = mails s"
  "world (logPrintf l s) = world s" "logged (logPrintf l s) = logged s @ [l]"
  by (simp_all add: logPrintf_def)

lemma companyStep_sent:
  assumes "companyStep env u k req r0 s = (r, s')"
  shows "\<exists>new. sent s' = sent s @ new \<and> Query ` set new \<subseteq> {findCompanyQuery, createCompanyQuery}"
proof (cases "Company req = []")
  case True
  then have "s' = s" using assms by (simp add: companyStep_def)
  then show ?thesis by auto
next
  case False
  obtain rc sc where c: "findOrCreateCompany env u k (Company req) s = (rc, sc)" by force
  have "sent s' = sent sc"
    using assms False c by (auto simp: companyStep_def split: sum.splits)
  then show ?thesis using findOrCreateCompany_sent [OF c] by simp
qed

lemma distinct_queries:
  "distinct [findCompanyQuery, createCompanyQuery, findPersonQuery, createPersonQuery,
     createOpportunityQuery]"
  by (simp add: findCompanyQuery_def createCompanyQuery_def findPersonQuery_def
      createPersonQuery_def createOpportunityQuery_def)

lemma companyStep_result:
  assumes "companyStep env u k req newLeadResult s = (result, s1)"
  shows "result = \<lparr>PersonID = [], CompanyID = CompanyID result, OpportunityID = [],
                    IsNewPerson = False\<rparr>"
  using assms
  by (auto simp: companyStep_def newLeadResult_def split: if_splits prod.splits sum.splits)

lemma findOrCreateCompany_fails:
  assumes "executeTwentyGraphQL env u k findCompanyQuery (findCompanyVars n) s = (found, s1)"
    and "noMatch env Companies found"
    and "executeTwentyGraphQL env u k createCompanyQuery (createCompanyVars n) s1 = (created, s2)"
    and "createFails env CreateCompany created"
  shows "\<exists>err. findOrCreateCompany env u k n s = (Inl err, s2)"
  using assms
  by (auto simp: findOrCreateCompany_def noMatch_def createFails_def Let_def
      split: sum.splits)

lemma findOrCreatePerson_fails:
  assumes "executeTwentyGraphQL env u k findPersonQuery (findPersonVars e) s = (found, s1)"
    and "noMatch env People found"
    and "executeTwentyGraphQL env u k createPersonQuery (createPersonVars f l e p c) s1 = (created, s2)"
    and "createFails env CreatePerson created"
  shows "\<exists>err. findOrCreatePerson env u k f l e p c s = (Inl err, s2)"
  using assms
  by (auto simp: findOrCreatePerson_def noMatch_def createFails_def Let_def
      split: sum.splits)

lemma findOrCreatePerson_found:
  assumes "executeTwentyGraphQL env u k findPersonQuery (findPersonVars e) s = (Inr resp, s1)"
    and "UnmarshalSearch env People (Data resp) = Inr (personID # others)"
  shows "findOrCreatePerson env u k f l e p c s = (Inr (personID, False), s1)"
  using assms by (simp add: findOrCreatePerson_def)

lemma createTwentyOpportunity_sent:
  assumes "createTwentyOpportunity env u k n m p c s = (r, s')"
  shows "\<exists>new. sent s' = sent s @ new \<and> Query ` set new \<subseteq> {createOpportunityQuery}"
proof -
  obtain r1 s1 where e: "executeTwentyGraphQL env u k createOpportunityQuery
      (createOpportunityVars n m p c) s = (r1, s1)" by force
  have "s' = s1" using assms e
    by (auto simp: createTwentyOpportunity_def split: sum.splits)
  then show ?thesis using executeTwentyGraphQL_sent [OF e] by simp
qed

section \<open>Evaluation in the example environment\<close>

lemma demoEnv_simps:
  "Getenv demoEnv = demoGetenv" "DecodeContact demoEnv = demoDecodeContact"
  "NewRequest demoEnv u = None" "Do demoEnv = demoDo"
  "UnmarshalGraphQL demoEnv = demoUnmarshalGraphQL"
  "UnmarshalSearch demoEnv = demoUnmarshalSearch"
  "UnmarshalCreate demoEnv = demoUnmarshalCreate"
  "Send demoEnv w d k m = (None, w)"
  by (simp_all add: demoEnv_def)

lemma demoGetenv_simps:
  "demoGetenv ''TWENTY_API_URL'' = ''https://crm.example.com''"
  "demoGetenv ''TWENTY_API_KEY'' = ''crm-key''"
  "demoGetenv ''MAILGUN_API_KEY'' = ''mg-key''"
  "demoGetenv ''MAILGUN_DOMAIN'' = ''mg.example.com''"
  "demoGetenv ''CONTACT_EMAIL'' = []"
  by (simp_all add: demoGetenv_def)

lemma demo_exec_refused:
  "executeTwentyGraphQL demoEnv u k q v \<lparr>world = refused # w, sent = rs, mails = ms, logged = ls\<rparr>
     = (Inl (ExecuteRequestFailed (External ''connection refused'')),
        \<lparr>world = w, sent = rs @ [\<lparr>Query = q, Variables = v\<rparr>], mails = ms, logged = ls\<rparr>)"
  by (simp add: executeTwentyGraphQL_def demoEnv_simps demoDo_def refused_def)

lemma demo_exec_down:
  "executeTwentyGraphQL demoEnv u k q v \<lparr>world = [], sent = rs, mails = ms, logged = ls\<rparr>
     = (Inl (ExecuteRequestFailed (External ''connection refused'')),
        \<lparr>world = [], sent = rs @ [\<lparr>Query = q, Variables = v\<rparr>], mails = ms, logged = ls\<rparr>)"
  by (simp add: executeTwentyGraphQL_def demoEnv_simps demoDo_def)

lemma demo_exec_ok:
  assumes "demoUnmarshalGraphQL b = Inr g" and "Errors g = []"
  shows "executeTwentyGraphQL demoEnv u k q v
       \<lparr>world = HttpResponse 200 b # w, sent = rs, mails = ms, logged = ls\<rparr>
     = (Inr g, \<lparr>world = w, sent = rs @ [\<lparr>Query = q, Variables = v\<rparr>], mails = ms, logged = ls\<rparr>)"
  using assms by (simp add: executeTwentyGraphQL_def demoEnv_simps demoDo_def)

lemma demo_exec_errors:
  assumes "demoUnmarshalGraphQL b = Inr g" and "Errors g = e # es"
  shows "executeTwentyGraphQL demoEnv u k q v
       \<lparr>world = HttpResponse 200 b # w, sent = rs, mails = ms, logged = ls\<rparr>
     = (Inl (GraphqlError e),
        \<lparr>world = w, sent = rs @ [\<lparr>Query = q, Variables = v\<rparr>], mails = ms, logged = ls\<rparr>)"
  using assms by (simp add: executeTwentyGraphQL_def demoEnv_simps demoDo_def)

lemmas demo_body_defs = noCompaniesBody_def companyCreatedBody_def noPeopleBody_def
  onePersonBody_def personCreatedBody_def opportunityCreatedBody_def emptyDataBody_def
  duplicateBody_def

lemmas demo_data_defs = noCompaniesData_def companyCreatedData_def noPeopleData_def
  onePersonData_def personCreatedData_def opportunityCreatedData_def

lemma demo_bodies:
  "demoUnmarshalGraphQL noCompaniesBody = Inr \<lparr>Data = noCompaniesData, Errors = []\<rparr>"
  "demoUnmarshalGraphQL companyCreatedBody = Inr \<lparr>Data = companyCreatedData, Errors = []\<rparr>"
  "demoUnmarshalGraphQL noPeopleBody = Inr \<lparr>Data = noPeopleData, Errors = []\<rparr>"
  "demoUnmarshalGraphQL onePersonBody = Inr \<lparr>Data = onePersonData, Errors = []\<rparr>"
  "demoUnmarshalGraphQL personCreatedBody = Inr \<lparr>Data = personCreatedData, Errors = []\<rparr>"
  "demoUnmarshalGraphQL opportunityCreatedBody =
     Inr \<lparr>Data = opportunityCreatedData, Errors = []\<rparr>"
  "demoUnmarshalGraphQL emptyDataBody = Inr \<lparr>Data = ''{}'', Errors = []\<rparr>"
  "demoUnmarshalGraphQL duplicateBody = Inr \<lparr>Data = [], Errors = [''duplicate entry'']\<rparr>"
  by (simp_all add: demoUnmarshalGraphQL_def demo_body_defs)

lemma demo_data:
  "demoUnmarshalSearch Companies noCompaniesData = Inr []"
  "demoUnmarshalSearch People noPeopleData = Inr []"
  "demoUnmarshalSearch People onePersonData = Inr [''p-7'']"
  "demoUnmarshalSearch Companies ''{}'' = Inr []"
  "demoUnmarshalSearch People ''{}'' = Inr []"
  "demoUnmarshalCreate CreateCompany companyCreatedData = Inr ''c-1''"
  "demoUnmarshalCreate CreatePerson personCreatedData = Inr ''p-1''"
  "demoUnmarshalCreate CreateOpportunity opportunityCreatedData = Inr ''o-1''"
  "demoUnmarshalCreate CreateCompany ''{}'' = Inr []"
  "demoUnmarshalCreate CreatePerson ''{}'' = Inr []"
  "demoUnmarshalCreate CreateOpportunity ''{}'' = Inr []"
  by (simp_all add: demoUnmarshalSearch_def demoUnmarshalCreate_def demo_data_defs)

lemma splitName_jane: "splitName ''Jane Doe'' = (''Jane'', ''Doe'')"
  by code_simp

lemma splitName_blank: "splitName '' '' = ([], [])"
  by code_simp

lemma TrimSpace_blank: "TrimSpace '' '' = []"
  by code_simp

lemmas demo_exec = demo_exec_refused demo_exec_down
  demo_exec_ok [OF demo_bodies(1)] demo_exec_ok [OF demo_bodies(2)] demo_exec_ok [OF demo_bodies(3)]
  demo_exec_ok [OF demo_bodies(4)] demo_exec_ok [OF demo_bodies(5)] demo_exec_ok [OF demo_bodies(6)]
  demo_exec_ok [OF demo_bodies(7)] demo_exec_errors [OF demo_bodies(8)]

lemmas demo_eval = demoEnv_simps demoGetenv_simps demo_exec demo_data start_def logPrintf_def
  noMatch_def createFails_def

lemmas lead_defs = createTwentyLead_def companyStep_def findOrCreateCompany_def
  findOrCreatePerson_def createTwentyOpportunity_def opportunityName_def newLeadResult_def

lemma demo_send_ok: "fst (sendNotificationEmail demoEnv req lead s) = None"
  by (simp add: sendNotificationEmail_def demoEnv_simps demoGetenv_simps)

lemma demo_decode:
  "demoDecodeContact janeBody = Inr janeReq"
  "demoDecodeContact blankBody = Inr blankReq"
  "demoDecodeContact namelessBody = Inr namelessReq"
  by (simp_all add: demoDecodeContact_def janeBody_def blankBody_def namelessBody_def)

lemma mailDownEnv_simps:
  "Getenv mailDownEnv = demoGetenv" "DecodeContact mailDownEnv = demoDecodeContact"
  "Send mailDownEnv w d k m = (Some (External ''mailgun: 401''), w)"
  by (simp_all add: mailDownEnv_def demoEnv_def)

lemma status_line_in_body:
  "sublist (''Status: '' @ status) (notificationBody req status link)"
proof -
  let ?before = "''New lead from sogos.io website!\<newline>'' @ ''\<newline>'' @
     [CHR 0xF0, CHR 0x9F, CHR 0x91, CHR 0xA4] @ '' Contact Information\<newline>'' @
     heavyRule @ ''\<newline>'' @
     ''Name: '' @ Name req @ ''\<newline>'' @
     ''Company: '' @ Company req @ ''\<newline>'' @
     ''Email: '' @ Email req @ ''\<newline>'' @
     ''Phone: '' @ Phone req @ ''\<newline>'' @
     ''Service Interest: '' @ Service req @ ''\<newline>''"
  let ?after = "''\<newline>'' @ ''\<newline>'' @
     [CHR 0xF0, CHR 0x9F, CHR 0x92, CHR 0xAC] @ '' Message\<newline>'' @
     heavyRule @ ''\<newline>'' @ Message req @ ''\<newline>'' @ link @ ''\<newline>''"
  have "notificationBody req status link = ?before @ (''Status: '' @ status) @ ?after"
    by (simp add: notificationBody_def)
  then show ?thesis
    by (simp only: sublist_appendI)
qed

section \<open>Properties of the request handler\<close>

lemma handleContact_valid:
  assumes "Method r = ''POST''" "DecodeContact env (Body r) = Inr req"
    "Name req \<noteq> []" "Email req \<noteq> []"
  shows "fst (handleContact env r s) =
     (if emailSendFails env req s then sendJSON 500 sendFailed else sendJSON 200 thankYou)"
  using assms
  by (auto simp: handleContact_def emailSendFails_def Let_def split: prod.splits option.splits)

text \<open>
  C1. For a POST request whose body decodes to a submission with a non-empty name and
  email, the response is the internal-error answer exactly when the email send fails, and
  the success answer otherwise. Two handlings of the same submission, in any two
  environments and states (so with any two outcomes of the CRM reconciliation: success,
  company failure, person failure or opportunity failure), give the same response
  whenever the email send has the same outcome in both.
\<close>

theorem response_depends_only_on_email_send:
  assumes "Method r = ''POST''" "DecodeContact env (Body r) = Inr req"
    "Name req \<noteq> []" "Email req \<noteq> []"
  shows "fst (handleContact env r s) =
       (if emailSendFails env req s then sendJSON 500 sendFailed else sendJSON 200 thankYou) \<and>
     (StatusCode (fst (handleContact env r s)) \<noteq> 200 \<longleftrightarrow> emailSendFails env req s) \<and>
     (\<forall>env' r' s'. Method r' = ''POST'' \<longrightarrow> DecodeContact env' (Body r') = Inr req \<longrightarrow>
        (emailSendFails env' req s' \<longleftrightarrow> emailSendFails env req s) \<longrightarrow>
        fst (handleContact env' r' s') = fst (handleContact env r s))"
proof -
  have a: "fst (handleContact env r s) =
       (if emailSendFails env req s then sendJSON 500 sendFailed else sendJSON 200 thankYou)"
    by (rule handleContact_valid [OF assms])
  have b: "StatusCode (fst (handleContact env r s)) \<noteq> 200 \<longleftrightarrow> emailSendFails env req s"
    by (simp add: a sendJSON_def)
  have c: "fst (handleContact env' r' s') = fst (handleContact env r s)"
    if "Method r' = ''POST''" "DecodeContact env' (Body r') = Inr req"
      "emailSendFails env' req s' \<longleftrightarrow> emailSendFails env req s"
    for env' :: "'v env" and r' s'
    using handleContact_valid [OF that(1,2) assms(3,4), of s'] a that(3) by simp
  show ?thesis using a b c by blast
qed

theorem response_depends_only_on_email_send_witness:
  "Method janePost = ''POST'' \<and> DecodeContact demoEnv (Body janePost) = Inr janeReq \<and>
   Name janeReq \<noteq> [] \<and> Email janeReq \<noteq> [] \<and>
   \<not> emailSendFails demoEnv janeReq (start emptyCRM) \<and>
   \<not> emailSendFails demoEnv janeReq (start personRejected) \<and>
   emailSendFails mailDownEnv janeReq (start emptyCRM) \<and>
   fst (handleContact demoEnv janePost (start emptyCRM)) = sendJSON 200 thankYou \<and>
   fst (handleContact demoEnv janePost (start personRejected)) = sendJSON 200 thankYou \<and>
   fst (handleContact mailDownEnv janePost (start emptyCRM)) = sendJSON 500 sendFailed"
proof -
  have m: "Method janePost = ''POST''" by (simp add: janePost_def)
  have d: "DecodeContact demoEnv (Body janePost) = Inr janeReq"
    by (simp add: janePost_def demoEnv_simps demo_decode)
  have d': "DecodeContact mailDownEnv (Body janePost) = Inr janeReq"
    by (simp add: janePost_def mailDownEnv_simps demo_decode)
  have n: "Name janeReq \<noteq> []" "Email janeReq \<noteq> []" by (simp_all add: janeReq_def)
  have ok: "\<not> emailSendFails demoEnv janeReq s" for s
    by (simp add: emailSendFails_def demo_send_ok split: prod.splits)
  have ko: "emailSendFails mailDownEnv janeReq s" for s
    by (simp add: emailSendFails_def sendNotificationEmail_def mailDownEnv_simps
        demoGetenv_simps split: prod.splits)
  note t1 = response_depends_only_on_email_send [OF m d n, of "start emptyCRM"]
  note t2 = response_depends_only_on_email_send [OF m d' n, of "start emptyCRM"]
  have a: "fst (handleContact demoEnv janePost (start emptyCRM)) = sendJSON 200 thankYou"
    using t1 [THEN conjunct1] ok by simp
  have "fst (handleContact demoEnv janePost (start personRejected)) =
      fst (handleContact demoEnv janePost (start emptyCRM))"
    using t1 [THEN conjunct2, THEN conjunct2, rule_format, OF m d] ok by simp
  then have b: "fst (handleContact demoEnv janePost (start personRejected)) = sendJSON 200 thankYou"
    using a by simp
  have c: "fst (handleContact mailDownEnv janePost (start emptyCRM)) = sendJSON 500 sendFailed"
    using t2 [THEN conjunct1] ko by simp
  show ?thesis using m d n ok ko a b c by simp
qed

text \<open>
  C7 fails as stated: validation compares the name and the email with the empty string
  and trims nothing. A submission whose name is one space passes it, the CRM is called
  and the notification is sent.
\<close>

theorem validation_without_trimming_counterexample:
  "Method blankPost = ''POST'' \<and> DecodeContact demoEnv (Body blankPost) = Inr blankReq \<and>
   TrimSpace (Name blankReq) = [] \<and>
   fst (handleContact demoEnv blankPost (start [])) = sendJSON 200 thankYou \<and>
   map Query (sent (snd (handleContact demoEnv blankPost (start [])))) =
     [findPersonQuery, createPersonQuery] \<and>
   map mail_reply_to (mails (snd (handleContact demoEnv blankPost (start [])))) = [''a@b.c'']"
  by (simp add: handleContact_def leadStep_def sendNotificationEmail_def lead_defs demo_eval
      blankPost_def demo_decode blankReq_def splitName_blank TrimSpace_blank)

text \<open>
  C7, amended. A submission whose name or email is the empty string, as received, is
  answered with the validation error and the state is left as it was: no request, no
  mail, no log line. So every submission that is not answered with the validation error,
  and every submission for which anything external happens, has a non-empty name and a
  non-empty email (before any trimming).
\<close>

theorem validation_rejects_empty_fields:
  assumes "Method r = ''POST''" "DecodeContact env (Body r) = Inr req"
  shows "(Name req = [] \<or> Email req = [] \<longrightarrow>
            handleContact env r s = (sendJSON 400 missingFields, s)) \<and>
         (fst (handleContact env r s) \<noteq> sendJSON 400 missingFields \<longrightarrow>
            Name req \<noteq> [] \<and> Email req \<noteq> []) \<and>
         (snd (handleContact env r s) \<noteq> s \<longrightarrow> Name req \<noteq> [] \<and> Email req \<noteq> [])"
  using assms by (auto simp: handleContact_def)

theorem validation_rejects_empty_fields_witness:
  "Method namelessPost = ''POST'' \<and> DecodeContact demoEnv (Body namelessPost) = Inr namelessReq \<and>
   Name namelessReq = [] \<and>
   handleContact demoEnv namelessPost (start emptyCRM) = (sendJSON 400 missingFields, start emptyCRM) \<and>
   fst (handleContact demoEnv janePost (start emptyCRM)) \<noteq> sendJSON 400 missingFields \<and>
   Name janeReq \<noteq> [] \<and> Email janeReq \<noteq> []"
proof -
  have m: "Method namelessPost = ''POST''" by (simp add: namelessPost_def)
  have d: "DecodeContact demoEnv (Body namelessPost) = Inr namelessReq"
    by (simp add: namelessPost_def demoEnv_simps demo_decode)
  have e: "Name namelessReq = []" by (simp add: namelessReq_def)
  have m': "Method janePost = ''POST''" by (simp add: janePost_def)
  have d': "DecodeContact demoEnv (Body janePost) = Inr janeReq"
    by (simp add: janePost_def demoEnv_simps demo_decode)
  have j: "fst (handleContact demoEnv janePost (start emptyCRM)) \<noteq> sendJSON 400 missingFields"
    by (simp add: handleContact_def m' d' janeReq_def demo_send_ok sendJSON_def
        split: prod.splits option.splits)
  show ?thesis
    using validation_rejects_empty_fields [OF m d, of "start emptyCRM"]
      validation_rejects_empty_fields [OF m' d', of "start emptyCRM"] m d e j
    by simp
qed

section \<open>Properties of the lead reconciler\<close>

text \<open>
  C2 fails as stated: the ids of a LeadResult are whatever the CRM returned, and nothing
  checks that they are non-empty. Here the company search and the company create are
  refused, the CRM then answers every call with an empty \<open>data\<close> object, and
  reconciliation succeeds with an empty person id and an empty opportunity id.
\<close>

theorem company_failure_empty_ids_counterexample:
  "Company janeReq \<noteq> [] \<and>
   fst (createTwentyLead demoEnv janeReq (start companyDownNoIds)) =
     Inr \<lparr>PersonID = [], CompanyID = [], OpportunityID = [], IsNewPerson = True\<rparr> \<and>
   logged (snd (createTwentyLead demoEnv janeReq (start companyDownNoIds))) =
     [LogCompanyFailed (ExecuteRequestFailed (External ''connection refused''))] \<and>
   map Query (sent (snd (createTwentyLead demoEnv janeReq (start companyDownNoIds)))) =
     [findCompanyQuery, createCompanyQuery, findPersonQuery, createPersonQuery,
      createOpportunityQuery]"
  by (simp add: lead_defs demo_eval janeReq_def splitName_jane companyDownNoIds_def)

text \<open>
  C2, amended. For a submission with a non-empty company name, when the company search
  finds nothing (or fails) and the company create fails, \<open>findOrCreateCompany\<close> fails, the
  failure is logged and the pipeline goes on: if the person step then returns an id and
  the opportunity step returns an id, reconciliation returns a LeadResult with an empty
  company id and exactly these two ids (which are non-empty when the CRM returned
  non-empty ids).
\<close>

theorem company_failure_not_fatal:
  assumes "Getenv env ''TWENTY_API_URL'' = apiURL" and "Getenv env ''TWENTY_API_KEY'' = apiKey"
    and "apiURL \<noteq> []" and "apiKey \<noteq> []"
    and "splitName (Name req) = (firstName, lastName)"
    and "Company req \<noteq> []"
    and "executeTwentyGraphQL env apiURL apiKey findCompanyQuery
           (findCompanyVars (Company req)) s = (found, s1)"
    and "noMatch env Companies found"
    and "executeTwentyGraphQL env apiURL apiKey createCompanyQuery
           (createCompanyVars (Company req)) s1 = (created, s2)"
    and "createFails env CreateCompany created"
  shows "\<exists>err. findOrCreateCompany env apiURL apiKey (Company req) s = (Inl err, s2) \<and>
           (\<forall>personID isNew s3 opportunityID s4.
              findOrCreatePerson env apiURL apiKey firstName lastName (Email req) (Phone req) []
                (logPrintf (LogCompanyFailed err) s2) = (Inr (personID, isNew), s3) \<longrightarrow>
              createTwentyOpportunity env apiURL apiKey (opportunityName req) (Message req)
                personID [] s3 = (Inr opportunityID, s4) \<longrightarrow>
              createTwentyLead env req s =
                (Inr \<lparr>PersonID = personID, CompanyID = [], OpportunityID = opportunityID,
                      IsNewPerson = isNew\<rparr>, s4))"
proof -
  from findOrCreateCompany_fails [OF assms(7-10)] obtain err where
    c: "findOrCreateCompany env apiURL apiKey (Company req) s = (Inl err, s2)" by blast
  have step: "companyStep env apiURL apiKey req newLeadResult s =
      (newLeadResult, logPrintf (LogCompanyFailed err) s2)"
    using c assms(6) by (simp add: companyStep_def)
  have "createTwentyLead env req s =
      (Inr \<lparr>PersonID = personID, CompanyID = [], OpportunityID = opportunityID,
            IsNewPerson = isNew\<rparr>, s4)"
    if "findOrCreatePerson env apiURL apiKey firstName lastName (Email req) (Phone req) []
          (logPrintf (LogCompanyFailed err) s2) = (Inr (personID, isNew), s3)"
      and "createTwentyOpportunity env apiURL apiKey (opportunityName req) (Message req)
          personID [] s3 = (Inr opportunityID, s4)"
    for personID isNew s3 opportunityID s4
    using that assms(1-5) step
    by (simp add: createTwentyLead_def newLeadResult_def)
  then show ?thesis using c by blast
qed

theorem company_failure_not_fatal_witness:
  "Company janeReq \<noteq> [] \<and>
   noMatch demoEnv Companies
     (fst (executeTwentyGraphQL demoEnv ''https://crm.example.com'' ''crm-key'' findCompanyQuery
        (findCompanyVars (Company janeReq)) (start companyDown))) \<and>
   fst (createTwentyLead demoEnv janeReq (start companyDown)) =
     Inr \<lparr>PersonID = ''p-1'', CompanyID = [], OpportunityID = ''o-1'', IsNewPerson = True\<rparr> \<and>
   logged (snd (createTwentyLead demoEnv janeReq (start companyDown))) =
     [LogCompanyFailed (ExecuteRequestFailed (External ''connection refused''))]"
proof -
  let ?u = "''https://crm.example.com''" and ?k = "''crm-key''"
  let ?err = "ExecuteRequestFailed (External ''connection refused'')"
  let ?s0 = "start companyDown"
  define found where "found = fst (executeTwentyGraphQL demoEnv ?u ?k findCompanyQuery
    (findCompanyVars (Company janeReq)) ?s0)"
  define s1 where "s1 = snd (executeTwentyGraphQL demoEnv ?u ?k findCompanyQuery
    (findCompanyVars (Company janeReq)) ?s0)"
  define created where "created = fst (executeTwentyGraphQL demoEnv ?u ?k createCompanyQuery
    (createCompanyVars (Company janeReq)) s1)"
  define s2 where "s2 = snd (executeTwentyGraphQL demoEnv ?u ?k createCompanyQuery
    (createCompanyVars (Company janeReq)) s1)"
  define s3 where "s3 = snd (findOrCreatePerson demoEnv ?u ?k ''Jane'' ''Doe'' (Email janeReq)
    (Phone janeReq) [] (logPrintf (LogCompanyFailed ?err) s2))"
  define s4 where "s4 = snd (createTwentyOpportunity demoEnv ?u ?k (opportunityName janeReq)
    (Message janeReq) ''p-1'' [] s3)"
  note defs = found_def s1_def created_def s2_def s3_def s4_def
  note eval = lead_defs demo_eval janeReq_def companyDown_def
  have h1: "Getenv demoEnv ''TWENTY_API_URL'' = ?u" "Getenv demoEnv ''TWENTY_API_KEY'' = ?k"
    "?u \<noteq> []" "?k \<noteq> []"
    by (simp_all add: demo_eval)
  have h5: "splitName (Name janeReq) = (''Jane'', ''Doe'')"
    by (simp add: janeReq_def splitName_jane)
  have h6: "Company janeReq \<noteq> []" by (simp add: janeReq_def)
  have h7: "executeTwentyGraphQL demoEnv ?u ?k findCompanyQuery
      (findCompanyVars (Company janeReq)) ?s0 = (found, s1)"
    by (simp add: defs)
  have h8: "noMatch demoEnv Companies found"
    by (simp add: defs eval)
  have h9: "executeTwentyGraphQL demoEnv ?u ?k createCompanyQuery
      (createCompanyVars (Company janeReq)) s1 = (created, s2)"
    by (simp add: defs)
  have h10: "createFails demoEnv CreateCompany created"
    by (simp add: defs eval)
  have c: "findOrCreateCompany demoEnv ?u ?k (Company janeReq) ?s0 = (Inl ?err, s2)"
    by (simp add: defs eval)
  have p: "findOrCreatePerson demoEnv ?u ?k ''Jane'' ''Doe'' (Email janeReq) (Phone janeReq) []
      (logPrintf (LogCompanyFailed ?err) s2) = (Inr (''p-1'', True), s3)"
    by (simp add: defs eval)
  have o: "createTwentyOpportunity demoEnv ?u ?k (opportunityName janeReq) (Message janeReq)
      ''p-1'' [] s3 = (Inr ''o-1'', s4)"
    by (simp add: defs eval)
  have l: "createTwentyLead demoEnv janeReq ?s0 =
      (Inr \<lparr>PersonID = ''p-1'', CompanyID = [], OpportunityID = ''o-1'', IsNewPerson = True\<rparr>, s4)"
  proof -
    from company_failure_not_fatal [OF h1 h5 h6 h7 h8 h9 h10]
    obtain err where e: "findOrCreateCompany demoEnv ?u ?k (Company janeReq) ?s0 = (Inl err, s2) \<and>
           (\<forall>personID isNew s3 opportunityID s4.
              findOrCreatePerson demoEnv ?u ?k ''Jane'' ''Doe'' (Email janeReq) (Phone janeReq) []
                (logPrintf (LogCompanyFailed err) s2) = (Inr (personID, isNew), s3) \<longrightarrow>
              createTwentyOpportunity demoEnv ?u ?k (opportunityName janeReq) (Message janeReq)
                personID [] s3 = (Inr opportunityID, s4) \<longrightarrow>
              createTwentyLead demoEnv janeReq ?s0 =
                (Inr \<lparr>PersonID = personID, CompanyID = [], OpportunityID = opportunityID,
                      IsNewPerson = isNew\<rparr>, s4))" ..
    then have "err = ?err" using c by simp
    with e p o show ?thesis by auto
  qed
  have "logged s4 = [LogCompanyFailed ?err]"
    by (simp add: defs eval)
  then show ?thesis using l h6 h8 by (simp add: found_def)
qed

text \<open>
  C3. When the person search finds no match (or fails) and the person create fails,
  reconciliation returns an error wrapping that failure and no LeadResult, in the state
  reached right after the person-create call; no operation sent since the start is the
  opportunity create.
\<close>

theorem person_failure_is_fatal:
  assumes "Getenv env ''TWENTY_API_URL'' = apiURL" and "Getenv env ''TWENTY_API_KEY'' = apiKey"
    and "apiURL \<noteq> []" and "apiKey \<noteq> []"
    and "splitName (Name req) = (firstName, lastName)"
    and "companyStep env apiURL apiKey req newLeadResult s = (result, s1)"
    and "executeTwentyGraphQL env apiURL apiKey findPersonQuery
           (findPersonVars (Email req)) s1 = (found, s2)"
    and "noMatch env People found"
    and "executeTwentyGraphQL env apiURL apiKey createPersonQuery
           (createPersonVars firstName lastName (Email req) (Phone req) (CompanyID result)) s2
           = (created, s3)"
    and "createFails env CreatePerson created"
  shows "(\<exists>err. createTwentyLead env req s = (Inl (FindCreatePersonFailed err), s3)) \<and>
         (\<exists>new. sent s3 = sent s @ new \<and> createOpportunityQuery \<notin> Query ` set new)"
proof -
  from findOrCreatePerson_fails [OF assms(7-10)] obtain err where
    p: "findOrCreatePerson env apiURL apiKey firstName lastName (Email req) (Phone req)
          (CompanyID result) s1 = (Inl err, s3)" by blast
  have a: "createTwentyLead env req s = (Inl (FindCreatePersonFailed err), s3)"
    using p assms(1-6) by (simp add: createTwentyLead_def)
  from companyStep_sent [OF assms(6)] obtain n1 where
    n1: "sent s1 = sent s @ n1" "Query ` set n1 \<subseteq> {findCompanyQuery, createCompanyQuery}"
    by blast
  from executeTwentyGraphQL_sent [OF assms(7)] obtain n2 where
    n2: "sent s2 = sent s1 @ n2" "Query ` set n2 \<subseteq> {findPersonQuery}" by blast
  from executeTwentyGraphQL_sent [OF assms(9)] obtain n3 where
    n3: "sent s3 = sent s2 @ n3" "Query ` set n3 \<subseteq> {createPersonQuery}" by blast
  have "sent s3 = sent s @ (n1 @ n2 @ n3)" using n1 n2 n3 by simp
  moreover have "createOpportunityQuery \<notin> Query ` set (n1 @ n2 @ n3)"
    using n1(2) n2(2) n3(2) distinct_queries by auto
  ultimately show ?thesis using a by blast
qed

theorem person_failure_is_fatal_witness:
  "fst (createTwentyLead demoEnv janeReq (start personRejected)) =
     Inl (FindCreatePersonFailed (GraphqlError ''duplicate entry'')) \<and>
   createOpportunityQuery \<notin> Query ` set (sent (snd (createTwentyLead demoEnv janeReq (start personRejected)))) \<and>
   map Query (sent (snd (createTwentyLead demoEnv janeReq (start personRejected)))) =
     [findCompanyQuery, createCompanyQuery, findPersonQuery, createPersonQuery]"
proof -
  let ?u = "''https://crm.example.com''" and ?k = "''crm-key''"
  let ?s0 = "start personRejected"
  define result where "result = fst (companyStep demoEnv ?u ?k janeReq newLeadResult ?s0)"
  define s1 where "s1 = snd (companyStep demoEnv ?u ?k janeReq newLeadResult ?s0)"
  define found where "found = fst (executeTwentyGraphQL demoEnv ?u ?k findPersonQuery
    (findPersonVars (Email janeReq)) s1)"
  define s2 where "s2 = snd (executeTwentyGraphQL demoEnv ?u ?k findPersonQuery
    (findPersonVars (Email janeReq)) s1)"
  define created where "created = fst (executeTwentyGraphQL demoEnv ?u ?k createPersonQuery
    (createPersonVars ''Jane'' ''Doe'' (Email janeReq) (Phone janeReq) (CompanyID result)) s2)"
  define s3 where "s3 = snd (executeTwentyGraphQL demoEnv ?u ?k createPersonQuery
    (createPersonVars ''Jane'' ''Doe'' (Email janeReq) (Phone janeReq) (CompanyID result)) s2)"
  note defs = result_def s1_def found_def s2_def created_def s3_def
  note eval = lead_defs demo_eval janeReq_def personRejected_def
  have h1: "Getenv demoEnv ''TWENTY_API_URL'' = ?u" "Getenv demoEnv ''TWENTY_API_KEY'' = ?k"
    "?u \<noteq> []" "?k \<noteq> []"
    by (simp_all add: demo_eval)
  have h5: "splitName (Name janeReq) = (''Jane'', ''Doe'')"
    by (simp add: janeReq_def splitName_jane)
  have h6: "companyStep demoEnv ?u ?k janeReq newLeadResult ?s0 = (result, s1)"
    by (simp add: defs)
  have h7: "executeTwentyGraphQL demoEnv ?u ?k findPersonQuery
      (findPersonVars (Email janeReq)) s1 = (found, s2)"
    by (simp add: defs)
  have h8: "noMatch demoEnv People found"
    by (simp add: defs eval)
  have h9: "executeTwentyGraphQL demoEnv ?u ?k createPersonQuery
      (createPersonVars ''Jane'' ''Doe'' (Email janeReq) (Phone janeReq) (CompanyID result)) s2
      = (created, s3)"
    by (simp add: defs)
  have h10: "createFails demoEnv CreatePerson created"
    by (simp add: defs eval)
  note t = person_failure_is_fatal [OF h1 h5 h6 h7 h8 h9 h10]
  from t obtain err where
    l: "createTwentyLead demoEnv janeReq ?s0 = (Inl (FindCreatePersonFailed err), s3)"
    by auto
  from t obtain new where
    n: "sent s3 = sent ?s0 @ new" "createOpportunityQuery \<notin> Query ` set new"
    by auto
  have a: "createOpportunityQuery \<notin> Query ` set (sent (snd (createTwentyLead demoEnv janeReq ?s0)))"
    using n l by (simp add: start_def)
  have b: "fst (createTwentyLead demoEnv janeReq ?s0) =
      Inl (FindCreatePersonFailed (GraphqlError ''duplicate entry''))"
    by (simp add: eval splitName_jane)
  have c: "map Query (sent (snd (createTwentyLead demoEnv janeReq ?s0))) =
      [findCompanyQuery, createCompanyQuery, findPersonQuery, createPersonQuery]"
    by (simp add: eval splitName_jane)
  show ?thesis using a b c by simp
qed

text \<open>
  C4. When the person search succeeds and returns at least one person,
  \<open>findOrCreatePerson\<close> returns the id of the first one with the flag "new" false;
  reconciliation goes on to the opportunity with that id, any LeadResult it returns
  carries that id and the flag false, and no operation sent since the start is the
  person create.
\<close>

theorem existing_person_is_reused:
  assumes "Getenv env ''TWENTY_API_URL'' = apiURL" and "Getenv env ''TWENTY_API_KEY'' = apiKey"
    and "apiURL \<noteq> []" and "apiKey \<noteq> []"
    and "splitName (Name req) = (firstName, lastName)"
    and "companyStep env apiURL apiKey req newLeadResult s = (result, s1)"
    and "executeTwentyGraphQL env apiURL apiKey findPersonQuery
           (findPersonVars (Email req)) s1 = (Inr resp, s2)"
    and "UnmarshalSearch env People (Data resp) = Inr (personID # others)"
  shows "findOrCreatePerson env apiURL apiKey firstName lastName (Email req) (Phone req)
           (CompanyID result) s1 = (Inr (personID, False), s2) \<and>
         createTwentyLead env req s =
           (case createTwentyOpportunity env apiURL apiKey (opportunityName req) (Message req)
                   personID (CompanyID result) s2 of
              (Inl err, s3) \<Rightarrow> (Inl (CreateOpportunityFailed err), s3)
            | (Inr opportunityID, s3) \<Rightarrow>
                (Inr \<lparr>PersonID = personID, CompanyID = CompanyID result,
                      OpportunityID = opportunityID, IsNewPerson = False\<rparr>, s3)) \<and>
         (\<exists>new. sent (snd (createTwentyLead env req s)) = sent s @ new \<and>
                 createPersonQuery \<notin> Query ` set new)"
proof -
  have p: "findOrCreatePerson env apiURL apiKey firstName lastName (Email req) (Phone req)
           (CompanyID result) s1 = (Inr (personID, False), s2)"
    by (rule findOrCreatePerson_found [OF assms(7,8)])
  obtain ro s3 where o: "createTwentyOpportunity env apiURL apiKey (opportunityName req)
      (Message req) personID (CompanyID result) s2 = (ro, s3)" by force
  have r: "result = \<lparr>PersonID = [], CompanyID = CompanyID result, OpportunityID = [],
                    IsNewPerson = False\<rparr>"
    by (rule companyStep_result [OF assms(6)])
  have l: "createTwentyLead env req s =
           (case createTwentyOpportunity env apiURL apiKey (opportunityName req) (Message req)
                   personID (CompanyID result) s2 of
              (Inl err, s3) \<Rightarrow> (Inl (CreateOpportunityFailed err), s3)
            | (Inr opportunityID, s3) \<Rightarrow>
                (Inr \<lparr>PersonID = personID, CompanyID = CompanyID result,
                      OpportunityID = opportunityID, IsNewPerson = False\<rparr>, s3))"
  proof -
    let ?c = "CompanyID result"
    have step: "companyStep env apiURL apiKey req newLeadResult s =
        (\<lparr>PersonID = [], CompanyID = ?c, OpportunityID = [], IsNewPerson = False\<rparr>, s1)"
      using assms(6) r by simp
    show ?thesis
      using p assms(1-5) o
      by (simp add: createTwentyLead_def step split: sum.splits)
  qed
  have s3: "snd (createTwentyLead env req s) = s3"
    by (simp add: l o split: sum.splits)
  from companyStep_sent [OF assms(6)] obtain n1 where
    n1: "sent s1 = sent s @ n1" "Query ` set n1 \<subseteq> {findCompanyQuery, createCompanyQuery}"
    by blast
  from executeTwentyGraphQL_sent [OF assms(7)] obtain n2 where
    n2: "sent s2 = sent s1 @ n2" "Query ` set n2 \<subseteq> {findPersonQuery}" by blast
  from createTwentyOpportunity_sent [OF o] obtain n3 where
    n3: "sent s3 = sent s2 @ n3" "Query ` set n3 \<subseteq> {createOpportunityQuery}" by blast
  have "sent s3 = sent s @ (n1 @ n2 @ n3)" using n1 n2 n3 by simp
  moreover have "createPersonQuery \<notin> Query ` set (n1 @ n2 @ n3)"
    using n1(2) n2(2) n3(2) distinct_queries by auto
  ultimately show ?thesis using p l s3 by blast
qed

theorem existing_person_is_reused_witness:
  "fst (createTwentyLead demoEnv janeReq (start knownPerson)) =
     Inr \<lparr>PersonID = ''p-7'', CompanyID = ''c-1'', OpportunityID = ''o-1'', IsNewPerson = False\<rparr> \<and>
   createPersonQuery \<notin> Query ` set (sent (snd (createTwentyLead demoEnv janeReq (start knownPerson)))) \<and>
   map Query (sent (snd (createTwentyLead demoEnv janeReq (start knownPerson)))) =
     [findCompanyQuery, createCompanyQuery, findPersonQuery, createOpportunityQuery]"
proof -
  let ?u = "''https://crm.example.com''" and ?k = "''crm-key''"
  let ?s0 = "start knownPerson"
  let ?resp = "\<lparr>Data = onePersonData, Errors = []\<rparr>"
  define result where "result = fst (companyStep demoEnv ?u ?k janeReq newLeadResult ?s0)"
  define s1 where "s1 = snd (companyStep demoEnv ?u ?k janeReq newLeadResult ?s0)"
  define s2 where "s2 = snd (executeTwentyGraphQL demoEnv ?u ?k findPersonQuery
    (findPersonVars (Email janeReq)) s1)"
  note defs = result_def s1_def s2_def
  note eval = lead_defs demo_eval janeReq_def knownPerson_def
  have h1: "Getenv demoEnv ''TWENTY_API_URL'' = ?u" "Getenv demoEnv ''TWENTY_API_KEY'' = ?k"
    "?u \<noteq> []" "?k \<noteq> []"
    by (simp_all add: demo_eval)
  have h5: "splitName (Name janeReq) = (''Jane'', ''Doe'')"
    by (simp add: janeReq_def splitName_jane)
  have h6: "companyStep demoEnv ?u ?k janeReq newLeadResult ?s0 = (result, s1)"
    by (simp add: defs)
  have h7: "executeTwentyGraphQL demoEnv ?u ?k findPersonQuery
      (findPersonVars (Email janeReq)) s1 = (Inr ?resp, s2)"
    by (simp add: defs eval)
  have h8: "UnmarshalSearch demoEnv People (Data ?resp) = Inr (''p-7'' # [])"
    by (simp add: demo_eval)
  note t = existing_person_is_reused [OF h1 h5 h6 h7 h8]
  have cid: "CompanyID result = ''c-1''"
    by (simp add: defs eval)
  define s3 where "s3 = snd (createTwentyOpportunity demoEnv ?u ?k (opportunityName janeReq)
    (Message janeReq) ''p-7'' ''c-1'' s2)"
  have o: "createTwentyOpportunity demoEnv ?u ?k (opportunityName janeReq) (Message janeReq)
      ''p-7'' ''c-1'' s2 = (Inr ''o-1'', s3)"
    by (simp add: s3_def defs eval)
  have a: "fst (createTwentyLead demoEnv janeReq ?s0) =
     Inr \<lparr>PersonID = ''p-7'', CompanyID = ''c-1'', OpportunityID = ''o-1'', IsNewPerson = False\<rparr>"
    using t cid o by simp
  from t obtain new where
    n: "sent (snd (createTwentyLead demoEnv janeReq ?s0)) = sent ?s0 @ new"
      "createPersonQuery \<notin> Query ` set new"
    by auto
  have b: "createPersonQuery \<notin> Query ` set (sent (snd (createTwentyLead demoEnv janeReq ?s0)))"
    using n by (simp add: start_def)
  have c: "map Query (sent (snd (createTwentyLead demoEnv janeReq ?s0))) =
     [findCompanyQuery, createCompanyQuery, findPersonQuery, createOpportunityQuery]"
    by (simp add: eval splitName_jane)
  show ?thesis using a b c by simp
qed

text \<open>
  C6 fails as stated: the person search sends the email itself as the \<open>ilike\<close> pattern;
  only the company search wraps its argument in \<open>%\<close>.
\<close>

theorem person_search_not_wrapped_counterexample:
  "findPersonVars ''jane@x.com'' \<noteq> specFindPersonVars ''jane@x.com'' \<and>
   jget [''filter'', ''emails'', ''primaryEmail'', ''ilike''] (JObject (findPersonVars ''jane@x.com''))
     = Some (JString ''jane@x.com'') \<and>
   jget [''filter'', ''name'', ''ilike''] (JObject (findCompanyVars ''Acme''))
     = Some (JString ''%Acme%'')"
  by (simp add: findPersonVars_def specFindPersonVars_def findCompanyVars_def)

text \<open>
  C6, amended. The pattern of the person search is the supplied email, unchanged, under
  \<open>filter.emails.primaryEmail.ilike\<close>; the pattern of the company search is the name
  between two \<open>%\<close>. The person search is the first operation \<open>findOrCreatePerson\<close>
  sends.
\<close>

theorem person_search_pattern:
  "jget [''filter'', ''emails'', ''primaryEmail'', ''ilike''] (JObject (findPersonVars email))
     = Some (JString email) \<and>
   jget [''filter'', ''name'', ''ilike''] (JObject (findCompanyVars name))
     = Some (JString (''%'' @ name @ ''%'')) \<and>
   (NewRequest env (apiURL @ ''/graphql'') = None \<longrightarrow>
      sent (snd (findOrCreatePerson env apiURL apiKey firstName lastName email phone companyID s))
        ! length (sent s) = \<lparr>Query = findPersonQuery, Variables = findPersonVars email\<rparr>)"
proof -
  obtain r1 s1 where e1: "executeTwentyGraphQL env apiURL apiKey findPersonQuery (findPersonVars email) s = (r1, s1)"
    by force
  obtain r2 s2 where e2: "executeTwentyGraphQL env apiURL apiKey createPersonQuery
      (createPersonVars firstName lastName email phone companyID) s1 = (r2, s2)"
    by force
  let ?s' = "snd (findOrCreatePerson env apiURL apiKey firstName lastName email phone companyID s)"
  have c: "?s' = s1 \<or> ?s' = s2"
    using e1 e2
    by (auto simp: findOrCreatePerson_def Let_def split: option.splits sum.splits if_splits)
  have "sent ?s' ! length (sent s) = \<lparr>Query = findPersonQuery, Variables = findPersonVars email\<rparr>"
    if n: "NewRequest env (apiURL @ ''/graphql'') = None"
    using c executeTwentyGraphQL_effect [OF e1] executeTwentyGraphQL_effect [OF e2] n
    by (auto simp: nth_append)
  then show ?thesis
    by (simp add: findPersonVars_def findCompanyVars_def)
qed

theorem person_search_pattern_witness:
  "NewRequest demoEnv (''https://crm.example.com'' @ ''/graphql'') = None \<and>
   sent (snd (findOrCreatePerson demoEnv ''https://crm.example.com'' ''crm-key'' ''Jane'' ''Doe''
     ''jane@x.com'' ''555-123-4567'' [] (start []))) ! 0 =
     \<lparr>Query = findPersonQuery, Variables = findPersonVars ''jane@x.com''\<rparr> \<and>
   jget [''filter'', ''emails'', ''primaryEmail'', ''ilike''] (JObject (findPersonVars ''jane@x.com''))
     = Some (JString ''jane@x.com'')"
proof -
  note t = person_search_pattern [of "''jane@x.com''" "''Acme''" demoEnv
      "''https://crm.example.com''" "''crm-key''" "''Jane''" "''Doe''" "''555-123-4567''" "[]"
      "start []"]
  have n: "NewRequest demoEnv (''https://crm.example.com'' @ ''/graphql'') = None"
    by (simp add: demoEnv_simps)
  from t [THEN conjunct1] t [THEN conjunct2, THEN conjunct2, rule_format, OF n] n
  show ?thesis by (simp add: start_def)
qed

text \<open>
  C10. The opportunity create does not depend on the message: two calls that differ in
  the message only are equal, result and state. The operation it sends is the
  \<open>createOpportunity\<close> mutation whose variables hold \<open>name\<close>, \<open>stage\<close> and, when
  non-empty, \<open>pointOfContactId\<close> and \<open>companyId\<close>, and nothing else: this is the one
  operation added to those sent and the body of the request handed to the CRM. When the
  request cannot be built, nothing is sent and the state is unchanged.
\<close>

theorem opportunity_ignores_message:
  "createTwentyOpportunity env apiURL apiKey name message personID companyID s =
     createTwentyOpportunity env apiURL apiKey name message' personID companyID s \<and>
   createOpportunityVars name message personID companyID =
     createOpportunityVars name message' personID companyID \<and>
   createOpportunityVars name message personID companyID =
     [(''input'', JObject ([(''name'', JString name), (''stage'', JString ''NEW'')] @
        (if personID \<noteq> [] then [(''pointOfContactId'', JString personID)] else []) @
        (if companyID \<noteq> [] then [(''companyId'', JString companyID)] else [])))] \<and>
   (NewRequest env (apiURL @ ''/graphql'') \<noteq> None \<longrightarrow>
      snd (createTwentyOpportunity env apiURL apiKey name message personID companyID s) = s) \<and>
   (NewRequest env (apiURL @ ''/graphql'') = None \<longrightarrow>
      sent (snd (createTwentyOpportunity env apiURL apiKey name message personID companyID s)) =
        sent s @
        [\<lparr>Query = createOpportunityQuery,
          Variables =
            [(''input'', JObject ([(''name'', JString name), (''stage'', JString ''NEW'')] @
               (if personID \<noteq> [] then [(''pointOfContactId'', JString personID)] else []) @
               (if companyID \<noteq> [] then [(''companyId'', JString companyID)] else [])))]\<rparr>] \<and>
      world (snd (createTwentyOpportunity env apiURL apiKey name message personID companyID s)) =
        snd (Do env (world s)
          \<lparr>req_url = apiURL @ ''/graphql'', req_content_type = ''application/json'',
           req_authorization = ''Bearer '' @ apiKey,
           req_body =
             \<lparr>Query = createOpportunityQuery,
              Variables =
                [(''input'', JObject ([(''name'', JString name), (''stage'', JString ''NEW'')] @
                   (if personID \<noteq> [] then [(''pointOfContactId'', JString personID)] else []) @
                   (if companyID \<noteq> [] then [(''companyId'', JString companyID)] else [])))]\<rparr>\<rparr>))"
proof -
  let ?vars = "[(''input'', JObject ([(''name'', JString name), (''stage'', JString ''NEW'')] @
        (if personID \<noteq> [] then [(''pointOfContactId'', JString personID)] else []) @
        (if companyID \<noteq> [] then [(''companyId'', JString companyID)] else [])))]"
  have v: "createOpportunityVars name m personID companyID = ?vars" for m
    by (simp add: createOpportunityVars_def)
  obtain r1 s1 where e: "executeTwentyGraphQL env apiURL apiKey createOpportunityQuery ?vars s
      = (r1, s1)" by force
  have s': "snd (createTwentyOpportunity env apiURL apiKey name m personID companyID s) = s1" for m
    using e by (simp add: createTwentyOpportunity_def v split: sum.splits)
  have a: "createTwentyOpportunity env apiURL apiKey name message personID companyID s =
     createTwentyOpportunity env apiURL apiKey name message' personID companyID s"
    by (simp add: createTwentyOpportunity_def v)
  have b: "s1 = s" if "NewRequest env (apiURL @ ''/graphql'') \<noteq> None"
    using e that by (auto simp: executeTwentyGraphQL_def Let_def)
  have c: "sent s1 = sent s @ [\<lparr>Query = createOpportunityQuery, Variables = ?vars\<rparr>]"
    if "NewRequest env (apiURL @ ''/graphql'') = None"
    using executeTwentyGraphQL_effect [OF e] that by simp
  have d: "world s1 = snd (Do env (world s)
          \<lparr>req_url = apiURL @ ''/graphql'', req_content_type = ''application/json'',
           req_authorization = ''Bearer '' @ apiKey,
           req_body = \<lparr>Query = createOpportunityQuery, Variables = ?vars\<rparr>\<rparr>)"
    if "NewRequest env (apiURL @ ''/graphql'') = None"
    using e that
    by (auto simp: executeTwentyGraphQL_def Let_def
        split: prod.splits http_outcome.splits sum.splits if_splits)
  show ?thesis
    using a v [of message] v [of message'] b c d by (simp add: s')
qed

theorem opportunity_ignores_message_witness:
  "NewRequest demoEnv (''https://crm.example.com'' @ ''/graphql'') = None \<and>
   sent (snd (createTwentyOpportunity demoEnv ''https://crm.example.com'' ''crm-key''
     ''Jane Doe - Website Inquiry'' ''hi'' ''p-1'' ''c-1''
     (start [HttpResponse 200 opportunityCreatedBody]))) =
     [\<lparr>Query = createOpportunityQuery,
       Variables =
         [(''input'', JObject [(''name'', JString ''Jane Doe - Website Inquiry''),
            (''stage'', JString ''NEW''), (''pointOfContactId'', JString ''p-1''),
            (''companyId'', JString ''c-1'')])]\<rparr>] \<and>
   world (snd (createTwentyOpportunity demoEnv ''https://crm.example.com'' ''crm-key''
     ''Jane Doe - Website Inquiry'' ''hi'' ''p-1'' ''c-1''
     (start [HttpResponse 200 opportunityCreatedBody]))) = [] \<and>
   NewRequest (demoEnv\<lparr>NewRequest := (\<lambda>u. Some (External ''missing protocol scheme''))\<rparr>)
     (''crm.example.com'' @ ''/graphql'') \<noteq> None \<and>
   snd (createTwentyOpportunity
     (demoEnv\<lparr>NewRequest := (\<lambda>u. Some (External ''missing protocol scheme''))\<rparr>)
     ''crm.example.com'' ''crm-key'' ''Jane Doe - Website Inquiry'' ''hi'' ''p-1'' ''c-1''
     (start [HttpResponse 200 opportunityCreatedBody])) =
     start [HttpResponse 200 opportunityCreatedBody]"
proof -
  let ?s = "start [HttpResponse 200 opportunityCreatedBody]"
  let ?bad = "demoEnv\<lparr>NewRequest := (\<lambda>u. Some (External ''missing protocol scheme''))\<rparr>"
  note t = opportunity_ignores_message [of demoEnv "''https://crm.example.com''" "''crm-key''"
      "''Jane Doe - Website Inquiry''" "''hi''" "''p-1''" "''c-1''" ?s "''bye''"]
  note t' = opportunity_ignores_message [of ?bad "''crm.example.com''" "''crm-key''"
      "''Jane Doe - Website Inquiry''" "''hi''" "''p-1''" "''c-1''" ?s "''bye''"]
  have n: "NewRequest demoEnv (''https://crm.example.com'' @ ''/graphql'') = None"
    by (simp add: demoEnv_simps)
  have n': "NewRequest ?bad (''crm.example.com'' @ ''/graphql'') \<noteq> None"
    by simp
  note g = t [THEN conjunct2, THEN conjunct2, THEN conjunct2, THEN conjunct2, rule_format, OF n]
  note b = t' [THEN conjunct2, THEN conjunct2, THEN conjunct2, THEN conjunct1, rule_format, OF n']
  have w: "world (snd (createTwentyOpportunity demoEnv ''https://crm.example.com'' ''crm-key''
     ''Jane Doe - Website Inquiry'' ''hi'' ''p-1'' ''c-1'' ?s)) = []"
    using g [THEN conjunct2] by (simp add: demoEnv_simps demoDo_def start_def)
  show ?thesis
    using n n' g [THEN conjunct1] w b by (simp add: start_def)
qed

section \<open>Properties of the notification composer\<close>

text \<open>
  C8 fails as stated: without a LeadResult the status line is not left unspecific, it
  reads \<open>New contact\<close>.
\<close>

theorem notification_without_lead_counterexample:
  "personStatus None = ''New contact'' \<and>
   map mail_text (mails (snd (sendNotificationEmail demoEnv janeReq None (start [])))) =
     [notificationBody janeReq ''New contact'' []] \<and>
   sublist ''Status: New contact'' (notificationBody janeReq ''New contact'' [])"
proof -
  have "sublist (''Status: '' @ ''New contact'') (notificationBody janeReq ''New contact'' [])"
    by (rule status_line_in_body)
  then show ?thesis
    by (simp add: personStatus_def crmLink_def sendNotificationEmail_def demo_eval)
qed

text \<open>
  C8, amended. Without a LeadResult the notification has no CRM link and its status
  line reads \<open>New contact\<close>; the link is there exactly when there is a LeadResult with
  a non-empty opportunity id. For any LeadResult, present or not, the text of the mail
  handed to the provider is the one written out below: the status line reads
  \<open>Existing contact (returning lead)\<close> for a LeadResult whose person is not new and
  \<open>New contact\<close> otherwise, and the message is followed by the link to the opportunity,
  built from the CRM base URL and the opportunity id, when that id is non-empty and by
  nothing otherwise.
\<close>

theorem notification_without_lead:
  "crmLink crmURL None = [] \<and> personStatus None = ''New contact'' \<and>
   (crmLink crmURL lead \<noteq> [] \<longleftrightarrow> (\<exists>l. lead = Some l \<and> OpportunityID l \<noteq> [])) \<and>
   (Getenv env ''MAILGUN_API_KEY'' \<noteq> [] \<and> Getenv env ''MAILGUN_DOMAIN'' \<noteq> [] \<longrightarrow>
      map mail_text (drop (length (mails s)) (mails (snd (sendNotificationEmail env req None s))))
        = [notificationBody req ''New contact'' []] \<and>
      map mail_text (drop (length (mails s)) (mails (snd (sendNotificationEmail env req lead s))))
        = [''New lead from sogos.io website!\<newline>'' @ ''\<newline>'' @
           [CHR 0xF0, CHR 0x9F, CHR 0x91, CHR 0xA4] @ '' Contact Information\<newline>'' @
           heavyRule @ ''\<newline>'' @
           ''Name: '' @ Name req @ ''\<newline>'' @
           ''Company: '' @ Company req @ ''\<newline>'' @
           ''Email: '' @ Email req @ ''\<newline>'' @
           ''Phone: '' @ Phone req @ ''\<newline>'' @
           ''Service Interest: '' @ Service req @ ''\<newline>'' @
           ''Status: '' @
           (case lead of
              None \<Rightarrow> ''New contact''
            | Some l \<Rightarrow>
                if IsNewPerson l then ''New contact''
                else ''Existing contact (returning lead)'') @ ''\<newline>'' @
           ''\<newline>'' @
           [CHR 0xF0, CHR 0x9F, CHR 0x92, CHR 0xAC] @ '' Message\<newline>'' @
           heavyRule @ ''\<newline>'' @
           Message req @ ''\<newline>'' @
           (case lead of
              None \<Rightarrow> []
            | Some l \<Rightarrow>
                if OpportunityID l = [] then []
                else ''\<newline>\<newline>'' @ [CHR 0xF0, CHR 0x9F, CHR 0x93, CHR 0x8A] @
                     '' View in CRM: '' @ Getenv env ''TWENTY_API_URL'' @
                     ''/objects/opportunities/'' @ OpportunityID l) @
           ''\<newline>''])"
proof -
  let ?url = "Getenv env ''TWENTY_API_URL''"
  have sent_text: "map mail_text (drop (length (mails s))
        (mails (snd (sendNotificationEmail env req l s)))) =
      [notificationBody req (personStatus l) (crmLink ?url l)]"
    if "Getenv env ''MAILGUN_API_KEY'' \<noteq> [] \<and> Getenv env ''MAILGUN_DOMAIN'' \<noteq> []" for l
    using that by (simp add: sendNotificationEmail_def Let_def split: prod.splits)
  have a: "crmLink crmURL None = []" by (simp add: crmLink_def)
  have b: "personStatus None = ''New contact''" by (simp add: personStatus_def)
  have c: "crmLink crmURL lead \<noteq> [] \<longleftrightarrow> (\<exists>l. lead = Some l \<and> OpportunityID l \<noteq> [])"
    by (cases lead) (simp_all add: crmLink_def)
  have status: "personStatus lead =
      (case lead of
         None \<Rightarrow> ''New contact''
       | Some l \<Rightarrow>
           if IsNewPerson l then ''New contact'' else ''Existing contact (returning lead)'')"
    by (cases lead) (simp_all add: personStatus_def)
  have link: "crmLink ?url lead =
      (case lead of
         None \<Rightarrow> []
       | Some l \<Rightarrow>
           if OpportunityID l = [] then []
           else ''\<newline>\<newline>'' @ [CHR 0xF0, CHR 0x9F, CHR 0x93, CHR 0x8A] @
                '' View in CRM: '' @ ?url @ ''/objects/opportunities/'' @ OpportunityID l)"
    by (cases lead) (simp_all add: crmLink_def)
  have body: "notificationBody req st ln =
      ''New lead from sogos.io website!\<newline>'' @ ''\<newline>'' @
      [CHR 0xF0, CHR 0x9F, CHR 0x91, CHR 0xA4] @ '' Contact Information\<newline>'' @
      heavyRule @ ''\<newline>'' @
      ''Name: '' @ Name req @ ''\<newline>'' @
      ''Company: '' @ Company req @ ''\<newline>'' @
      ''Email: '' @ Email req @ ''\<newline>'' @
      ''Phone: '' @ Phone req @ ''\<newline>'' @
      ''Service Interest: '' @ Service req @ ''\<newline>'' @
      ''Status: '' @ st @ ''\<newline>'' @
      ''\<newline>'' @
      [CHR 0xF0, CHR 0x9F, CHR 0x92, CHR 0xAC] @ '' Message\<newline>'' @
      heavyRule @ ''\<newline>'' @
      Message req @ ''\<newline>'' @ ln @ ''\<newline>''" for st ln
    by (simp add: notificationBody_def)
  have d: "map mail_text (drop (length (mails s))
        (mails (snd (sendNotificationEmail env req None s)))) =
      [notificationBody req ''New contact'' []]"
    if k: "Getenv env ''MAILGUN_API_KEY'' \<noteq> [] \<and> Getenv env ''MAILGUN_DOMAIN'' \<noteq> []"
    using sent_text [OF k, of None] by (simp add: crmLink_def personStatus_def)
  have e: "map mail_text (drop (length (mails s))
        (mails (snd (sendNotificationEmail env req lead s)))) =
      [notificationBody req (personStatus lead) (crmLink ?url lead)]"
    if k: "Getenv env ''MAILGUN_API_KEY'' \<noteq> [] \<and> Getenv env ''MAILGUN_DOMAIN'' \<noteq> []"
    by (rule sent_text [OF k])
  show ?thesis
    using a b c d e unfolding body status link by blast
qed

theorem notification_without_lead_witness:
  "Getenv demoEnv ''MAILGUN_API_KEY'' \<noteq> [] \<and> Getenv demoEnv ''MAILGUN_DOMAIN'' \<noteq> [] \<and>
   map mail_text (mails (snd (sendNotificationEmail demoEnv janeReq None (start [])))) =
     [notificationBody janeReq ''New contact'' []] \<and>
   map mail_text (mails (snd (sendNotificationEmail demoEnv janeReq
       (Some \<lparr>PersonID = ''p-7'', CompanyID = ''c-1'', OpportunityID = ''o-1'',
              IsNewPerson = False\<rparr>) (start [])))) =
     [''New lead from sogos.io website!\<newline>'' @ ''\<newline>'' @
      [CHR 0xF0, CHR 0x9F, CHR 0x91, CHR 0xA4] @ '' Contact Information\<newline>'' @
      heavyRule @ ''\<newline>'' @
      ''Name: Jane Doe\<newline>'' @ ''Company: Acme\<newline>'' @ ''Email: jane@x.com\<newline>'' @
      ''Phone: 555-123-4567\<newline>'' @ ''Service Interest: \<newline>'' @
      ''Status: Existing contact (returning lead)\<newline>'' @ ''\<newline>'' @
      [CHR 0xF0, CHR 0x9F, CHR 0x92, CHR 0xAC] @ '' Message\<newline>'' @
      heavyRule @ ''\<newline>'' @ ''hi\<newline>'' @
      ''\<newline>\<newline>'' @ [CHR 0xF0, CHR 0x9F, CHR 0x93, CHR 0x8A] @
      '' View in CRM: https://crm.example.com/objects/opportunities/o-1'' @ ''\<newline>''] \<and>
   crmLink ''https://crm.example.com'' None = [] \<and>
   crmLink ''https://crm.example.com''
     (Some \<lparr>PersonID = ''p-1'', CompanyID = [], OpportunityID = ''o-1'', IsNewPerson = True\<rparr>) \<noteq> []"
proof -
  let ?l = "\<lparr>PersonID = ''p-7'', CompanyID = ''c-1'', OpportunityID = ''o-1'',
              IsNewPerson = False\<rparr>"
  have k: "Getenv demoEnv ''MAILGUN_API_KEY'' \<noteq> [] \<and> Getenv demoEnv ''MAILGUN_DOMAIN'' \<noteq> []"
    by (simp add: demo_eval)
  note t = notification_without_lead [of "''https://crm.example.com''"
      "Some \<lparr>PersonID = ''p-1'', CompanyID = [], OpportunityID = ''o-1'', IsNewPerson = True\<rparr>"
      demoEnv "start []" janeReq]
  note u = notification_without_lead [of "''https://crm.example.com''" "Some ?l"
      demoEnv "start []" janeReq]
  note m = u [THEN conjunct2, THEN conjunct2, THEN conjunct2, rule_format, OF k]
  have a: "map mail_text (mails (snd (sendNotificationEmail demoEnv janeReq None (start [])))) =
     [notificationBody janeReq ''New contact'' []]"
    using m [THEN conjunct1] by (simp add: start_def)
  have b: "map mail_text (mails (snd (sendNotificationEmail demoEnv janeReq (Some ?l) (start []))))
     = [''New lead from sogos.io website!\<newline>'' @ ''\<newline>'' @
      [CHR 0xF0, CHR 0x9F, CHR 0x91, CHR 0xA4] @ '' Contact Information\<newline>'' @
      heavyRule @ ''\<newline>'' @
      ''Name: Jane Doe\<newline>'' @ ''Company: Acme\<newline>'' @ ''Email: jane@x.com\<newline>'' @
      ''Phone: 555-123-4567\<newline>'' @ ''Service Interest: \<newline>'' @
      ''Status: Existing contact (returning lead)\<newline>'' @ ''\<newline>'' @
      [CHR 0xF0, CHR 0x9F, CHR 0x92, CHR 0xAC] @ '' Message\<newline>'' @
      heavyRule @ ''\<newline>'' @ ''hi\<newline>'' @
      ''\<newline>\<newline>'' @ [CHR 0xF0, CHR 0x9F, CHR 0x93, CHR 0x8A] @
      '' View in CRM: https://crm.example.com/objects/opportunities/o-1'' @ ''\<newline>'']"
    using m [THEN conjunct2] by (simp add: start_def janeReq_def demoEnv_simps demoGetenv_simps)
  have c: "crmLink ''https://crm.example.com'' None = []"
    using t [THEN conjunct1] .
  have d: "crmLink ''https://crm.example.com''
     (Some \<lparr>PersonID = ''p-1'', CompanyID = [], OpportunityID = ''o-1'', IsNewPerson = True\<rparr>) \<noteq> []"
    using t [THEN conjunct2, THEN conjunct2, THEN conjunct1] by simp
  show ?thesis using k a b c d by simp
qed

end
